theory Spec2Isabelle
  imports Complex_Main
begin

section \<open>JavaScript strings\<close>

text \<open>
  Strings are lists of characters; \<open>length\<close> is what \<open>String.prototype.length\<close>
  counts (one unit per character of the list).  The helpers below are the
  built-in string methods the sources call.
\<close>

text \<open>\<open>s.startsWith(p)\<close>.\<close>

fun startsWith :: "string \<Rightarrow> string \<Rightarrow> bool" where
  "startsWith s [] = True"
| "startsWith [] (p # ps) = False"
| "startsWith (c # cs) (p # ps) = (c = p \<and> startsWith cs ps)"

text \<open>\<open>s.includes(sub)\<close>: \<open>sub\<close> occurs in \<open>s\<close> as a contiguous run.\<close>

fun includes_str :: "string \<Rightarrow> string \<Rightarrow> bool" where
  "includes_str [] sub = (sub = [])"
| "includes_str (c # cs) sub = (startsWith (c # cs) sub \<or> includes_str cs sub)"

text \<open>
  \<open>s.split(sep)\<close> for a one-character separator: the pieces between the
  separators, always at least one piece.
\<close>

fun split_str :: "char \<Rightarrow> string \<Rightarrow> string list" where
  "split_str sep [] = [[]]"
| "split_str sep (c # cs) =
     (case split_str sep cs of
        [] \<Rightarrow> (if c = sep then [[], []] else [[c]])
      | p # ps \<Rightarrow> (if c = sep then [] # p # ps else (c # p) # ps))"

text \<open>
  \<open>n.toString()\<close> for a non-negative integer: its decimal digits, most
  significant first.
\<close>

definition digit_char :: "nat \<Rightarrow> char" where
  "digit_char d = char_of (48 + d)"

fun number_toString :: "nat \<Rightarrow> string" where
  "number_toString n =
     (if n < 10 then [digit_char n]
      else number_toString (n div 10) @ [digit_char (n mod 10)])"

section \<open>utils/costCalculator.ts\<close>

record TokenUsage =
  prompt_tokens :: real
  completion_tokens :: real
  total_tokens :: real

record ModelPricing =
  promptCostPer1K :: real
  completionCostPer1K :: real

definition DEFAULT_PRICING :: ModelPricing where
  "DEFAULT_PRICING = \<lparr>promptCostPer1K = 0.5, completionCostPer1K = 1.5\<rparr>"

text \<open>
  The own properties of the object literal \<open>MODEL_PRICING\<close>, in insertion order
  (the order \<open>Object.entries\<close> lists them in).
\<close>

definition MODEL_PRICING :: "(string \<times> ModelPricing) list" where
  "MODEL_PRICING =
     [(''gpt-4'', \<lparr>promptCostPer1K = 30, completionCostPer1K = 60\<rparr>),
      (''gpt-4-turbo'', \<lparr>promptCostPer1K = 10, completionCostPer1K = 30\<rparr>),
      (''gpt-3.5-turbo'', \<lparr>promptCostPer1K = 0.5, completionCostPer1K = 1.5\<rparr>),
      (''claude-3-opus'', \<lparr>promptCostPer1K = 15, completionCostPer1K = 75\<rparr>),
      (''claude-3-sonnet'', \<lparr>promptCostPer1K = 3, completionCostPer1K = 15\<rparr>),
      (''claude-3-haiku'', \<lparr>promptCostPer1K = 0.25, completionCostPer1K = 1.25\<rparr>)]"

text \<open>
  \<open>MODEL_PRICING\<close> is a plain object literal, so its prototype is
  \<open>Object.prototype\<close> and \<open>MODEL_PRICING[key]\<close> also finds the members it
  inherits.  Each of them is a function (\<open>__proto__\<close>: an object), hence truthy,
  and none has a \<open>promptCostPer1K\<close> or \<open>completionCostPer1K\<close> property.
\<close>

definition Object_prototype_members :: "string list" where
  "Object_prototype_members =
     [''constructor'', ''hasOwnProperty'', ''isPrototypeOf'', ''propertyIsEnumerable'',
      ''toLocaleString'', ''toString'', ''valueOf'', ''__proto__'',
      ''__defineGetter__'', ''__defineSetter__'', ''__lookupGetter__'', ''__lookupSetter__'']"

text \<open>
  What \<open>getModelPricing\<close> can return: a pricing record, or the member of
  \<open>Object.prototype\<close> found under the key.
\<close>

datatype pricing_value = PricingRecord ModelPricing | InheritedMember string

text \<open>\<open>MODEL_PRICING[key]\<close>; \<open>None\<close> is \<open>undefined\<close>.\<close>

definition MODEL_PRICING_get :: "string \<Rightarrow> pricing_value option" where
  "MODEL_PRICING_get key =
     (case map_of MODEL_PRICING key of
        Some p \<Rightarrow> Some (PricingRecord p)
      | None \<Rightarrow> (if key \<in> set Object_prototype_members
                 then Some (InheritedMember key) else None))"

text \<open>\<open>model.includes('/') ? model.split('/')[1] : model\<close>.\<close>

definition baseModel :: "string \<Rightarrow> string" where
  "baseModel model =
     (if includes_str model ''/''
      then (case split_str CHR ''/'' model of
              (_ # b # _) \<Rightarrow> b
            | _ \<Rightarrow> model)
      else model)"

text \<open>
  The loop over \<open>Object.entries(MODEL_PRICING)\<close>: the first entry whose name
  contains the base name or is contained in it.
\<close>

fun partial_match :: "string \<Rightarrow> (string \<times> ModelPricing) list \<Rightarrow> ModelPricing option" where
  "partial_match b [] = None"
| "partial_match b ((modelName, pricing) # rest) =
     (if includes_str b modelName \<or> includes_str modelName b then Some pricing
      else partial_match b rest)"

definition getModelPricing :: "string \<Rightarrow> pricing_value" where
  "getModelPricing model =
     (let b = baseModel model in
      case MODEL_PRICING_get b of
        Some v \<Rightarrow> v
      | None \<Rightarrow>
          (case partial_match b MODEL_PRICING of
             Some pricing \<Rightarrow> PricingRecord pricing
           | None \<Rightarrow> PricingRecord DEFAULT_PRICING))"

text \<open>
  Reading a rate off the returned value; \<open>None\<close> is \<open>undefined\<close>.
\<close>

fun promptRate :: "pricing_value \<Rightarrow> real option" where
  "promptRate (PricingRecord p) = Some (promptCostPer1K p)"
| "promptRate (InheritedMember m) = None"

fun completionRate :: "pricing_value \<Rightarrow> real option" where
  "completionRate (PricingRecord p) = Some (completionCostPer1K p)"
| "completionRate (InheritedMember m) = None"

text \<open>
  \<open>calculateCost\<close>.  Numbers are modelled as reals, without the rounding of
  IEEE doubles; \<open>None\<close> is \<open>NaN\<close>, which is what a product with
  \<open>undefined\<close> gives and what a sum with \<open>NaN\<close> stays.
\<close>

definition calculateCost :: "TokenUsage \<Rightarrow> string \<Rightarrow> real option" where
  "calculateCost usage model =
     (let pricing = getModelPricing model in
      case (promptRate pricing, completionRate pricing) of
        (Some pr, Some cr) \<Rightarrow>
          Some ((prompt_tokens usage / 1000) * pr + (completion_tokens usage / 1000) * cr)
      | _ \<Rightarrow> None)"

text \<open>\<open>Math.ceil(text.length / 4)\<close>.\<close>

definition estimateTokens :: "string \<Rightarrow> nat" where
  "estimateTokens text = nat \<lceil>real (length text) / 4\<rceil>"

text \<open>Message content as \<open>types/openrouter.ts\<close> declares it.\<close>

datatype ContentPart =
    TextContent string
  | ImageContentPart string "string option"

datatype MessageContent = ContentString string | ContentParts "ContentPart list"

record Message =
  role :: string
  content :: MessageContent

text \<open>The length a part adds: only parts of type \<open>text\<close> count.\<close>

fun part_length :: "ContentPart \<Rightarrow> nat" where
  "part_length (TextContent t) = length t"
| "part_length (ImageContentPart url detail) = 0"

fun content_length :: "MessageContent \<Rightarrow> nat" where
  "content_length (ContentString s) = length s"
| "content_length (ContentParts ps) = sum_list (map part_length ps)"

text \<open>The loop of \<open>estimatePromptTokens\<close> that adds up \<open>totalLength\<close>.\<close>

definition totalLength :: "Message list \<Rightarrow> nat" where
  "totalLength messages = sum_list (map (\<lambda>m. content_length (content m)) messages)"

text \<open>\<open>return estimateTokens(totalLength.toString())\<close>.\<close>

definition estimatePromptTokens :: "Message list \<Rightarrow> nat" where
  "estimatePromptTokens messages = estimateTokens (number_toString (totalLength messages))"

text \<open>
  The completion estimate of both streaming handlers:
  \<open>Math.ceil(content.length / 4)\<close> on the concatenated delta content.
\<close>

definition completionTokens :: "string \<Rightarrow> nat" where
  "completionTokens emitted = nat \<lceil>real (length emitted) / 4\<rceil>"

section \<open>Errors\<close>

text \<open>
  A thrown value: a \<open>TypeError\<close> raised by the runtime, or the \<open>Error\<close> that
  \<open>OpenRouterService.handleError\<close> builds for a failed upstream request, with
  its \<open>code\<close>, \<open>message\<close> and \<open>type\<close>.
\<close>

datatype error = TypeError string | RequestError int string string

fun error_message :: "error \<Rightarrow> string" where
  "error_message (TypeError m) = m"
| "error_message (RequestError c m t) = m"

section \<open>services/modelRegistryService.ts\<close>

subsection \<open>Catalog entries (types/openrouter.ts, types/inference.ts)\<close>

record Pricing =
  prompt :: string
  completion :: string

record Architecture =
  modality :: string
  tokenizer :: string
  instruct_type :: "string option"

record TopProvider =
  top_context_length :: int
  max_completion_tokens :: "int option"
  is_moderated :: bool

record PerRequestLimits =
  limit_prompt_tokens :: "string option"
  limit_completion_tokens :: "string option"

text \<open>
  \<open>Model\<close>.  \<open>pricing\<close> and \<open>per_request_limits\<close> are options because the code
  guards both (\<open>model.pricing || ...\<close>, \<open>model.per_request_limits && ...\<close>).
\<close>

record Model =
  model_id :: string
  model_name :: string
  model_description :: "string option"
  model_context_length :: int
  model_pricing :: "Pricing option"
  architecture :: Architecture
  top_provider :: TopProvider
  per_request_limits :: "PerRequestLimits option"

record ModelInfo =
  info_id :: string
  info_name :: string
  info_description :: "string option"
  info_context_length :: int
  info_pricing :: Pricing
  supported_parameters :: "string list"
  info_is_moderated :: bool
  info_max_completion_tokens :: "int option"

subsection \<open>The upstream client and the registry state\<close>

text \<open>
  \<open>OpenRouterService\<close>: the request interceptor counts every request the
  client sends upstream in \<open>requestCount\<close>.
\<close>

record OpenRouterService =
  requestCount :: nat

text \<open>
  \<open>ModelRegistryService\<close>.  \<open>models\<close> is the \<open>Map\<close>, as the list of its entries
  in insertion order.
\<close>

record ModelRegistryService =
  models :: "(string \<times> Model) list"
  lastUpdated :: int
  openrouterService :: OpenRouterService

definition new_ModelRegistryService :: "OpenRouterService \<Rightarrow> ModelRegistryService" where
  "new_ModelRegistryService svc = \<lparr>models = [], lastUpdated = 0, openrouterService = svc\<rparr>"

definition cacheTimeout :: int where
  "cacheTimeout = 5 * 60 * 1000"

text \<open>
  What one read meets outside the registry: the clock when the read starts,
  the answer of \<open>GET /models\<close> should the read ask for it, and the clock once
  that answer is in.
\<close>

record env =
  now :: int
  upstream :: "error + Model list"
  fetched_at :: int

text \<open>\<open>Map.prototype.set\<close>: a known key keeps its place, a new key goes last.\<close>

fun Map_set :: "string \<Rightarrow> 'v \<Rightarrow> (string \<times> 'v) list \<Rightarrow> (string \<times> 'v) list" where
  "Map_set k v [] = [(k, v)]"
| "Map_set k v ((k', v') # rest) =
     (if k' = k then (k, v) # rest else (k', v') # Map_set k v rest)"

text \<open>\<open>OpenRouterService.getModels\<close>: one request, whose answer is the environment's.\<close>

definition OpenRouterService_getModels ::
  "env \<Rightarrow> OpenRouterService \<Rightarrow> (error + Model list) \<times> OpenRouterService" where
  "OpenRouterService_getModels e svc = (upstream e, svc\<lparr>requestCount := requestCount svc + 1\<rparr>)"

text \<open>
  The map after \<open>this.models.clear()\<close> and the loop
  \<open>for (const model of models) this.models.set(model.id, model)\<close>.
\<close>

definition fill_models :: "Model list \<Rightarrow> (string \<times> Model) list" where
  "fill_models ms = foldl (\<lambda>acc m. Map_set (model_id m) m acc) [] ms"

text \<open>
  \<open>refreshModels\<close>: the fetch is awaited first; only when it has returned is the
  map cleared and refilled and the timestamp set.  A failed fetch is rethrown.
\<close>

definition refreshModels ::
  "env \<Rightarrow> ModelRegistryService \<Rightarrow> (error + unit) \<times> ModelRegistryService" where
  "refreshModels e r =
     (case OpenRouterService_getModels e (openrouterService r) of
        (Inl err, svc) \<Rightarrow> (Inl err, r\<lparr>openrouterService := svc\<rparr>)
      | (Inr ms, svc) \<Rightarrow>
          (Inr (),
           r\<lparr>models := fill_models ms,
             lastUpdated := fetched_at e,
             openrouterService := svc\<rparr>))"

definition needs_refresh :: "int \<Rightarrow> ModelRegistryService \<Rightarrow> bool" where
  "needs_refresh t r = (length (models r) = 0 \<or> t - lastUpdated r > cacheTimeout)"

definition refreshModelsIfNeeded ::
  "env \<Rightarrow> ModelRegistryService \<Rightarrow> (error + unit) \<times> ModelRegistryService" where
  "refreshModelsIfNeeded e r =
     (if needs_refresh (now e) r then refreshModels e r else (Inr (), r))"

subsection \<open>Derived parameters\<close>

definition baseParameters :: "string list" where
  "baseParameters =
     [''temperature'', ''max_tokens'', ''top_p'', ''frequency_penalty'',
      ''presence_penalty'', ''stop'', ''stream'']"

text \<open>\<open>parts[0] || 'unknown'\<close> of \<open>modelId.split('/')\<close>.\<close>

definition getProviderFromModelId :: "string \<Rightarrow> string" where
  "getProviderFromModelId modelId =
     (case split_str CHR ''/'' modelId of
        [] \<Rightarrow> ''unknown''
      | p # _ \<Rightarrow> (if p = [] then ''unknown'' else p))"

definition providerParameters :: "(string \<times> string list) list" where
  "providerParameters =
     [(''openai'', [''logit_bias'', ''logprobs'', ''top_logprobs'', ''response_format'',
                    ''seed'', ''tools'', ''tool_choice'']),
      (''anthropic'', [''top_k'', ''repetition_penalty'', ''min_p'', ''top_a'']),
      (''google'', [''top_k'', ''candidate_count'']),
      (''cohere'', [''top_k'', ''repetition_penalty'']),
      (''mistral'', [''safe_prompt'', ''random_seed'']),
      (''deepseek'', [''top_k'', ''repetition_penalty''])]"

text \<open>
  \<open>providerParameters[provider] || []\<close>.  The table is an object literal too:
  under the name of a member of \<open>Object.prototype\<close> the lookup yields that
  member, which is not iterable, and the callers' spread of it throws.
\<close>

definition getProviderSpecificParameters :: "string \<Rightarrow> error + string list" where
  "getProviderSpecificParameters provider =
     (case map_of providerParameters provider of
        Some ps \<Rightarrow> Inr ps
      | None \<Rightarrow>
          (if provider \<in> set Object_prototype_members
           then Inl (TypeError ''providerParameters is not iterable'')
           else Inr []))"

text \<open>A string is truthy when it is not empty.\<close>

definition truthy_str :: "string option \<Rightarrow> bool" where
  "truthy_str s = (case s of None \<Rightarrow> False | Some t \<Rightarrow> t \<noteq> [])"

definition getSupportedParametersForModel :: "Model \<Rightarrow> error + string list" where
  "getSupportedParametersForModel m =
     (case getProviderSpecificParameters (getProviderFromModelId (model_id m)) of
        Inl err \<Rightarrow> Inl err
      | Inr ps \<Rightarrow>
          Inr (baseParameters @ ps
               @ (if truthy_str (instruct_type (architecture m))
                  then [''system'', ''user'', ''assistant''] else [])
               @ (case per_request_limits m of
                    None \<Rightarrow> []
                  | Some l \<Rightarrow>
                      (if truthy_str (limit_prompt_tokens l) \<or> truthy_str (limit_completion_tokens l)
                       then [''max_tokens''] else []))))"

definition transformModel :: "Model \<Rightarrow> error + ModelInfo" where
  "transformModel m =
     (case getSupportedParametersForModel m of
        Inl err \<Rightarrow> Inl err
      | Inr ps \<Rightarrow>
          Inr \<lparr>info_id = model_id m,
               info_name = model_name m,
               info_description = model_description m,
               info_context_length = model_context_length m,
               info_pricing = (case model_pricing m of
                                 Some p \<Rightarrow> p
                               | None \<Rightarrow> \<lparr>prompt = ''0'', completion = ''0''\<rparr>),
               supported_parameters = ps,
               info_is_moderated = is_moderated (top_provider m),
               info_max_completion_tokens = max_completion_tokens (top_provider m)\<rparr>)"

text \<open>\<open>xs.map(f)\<close> where \<open>f\<close> may throw: the first throw ends the map.\<close>

fun map_throwing :: "('a \<Rightarrow> error + 'b) \<Rightarrow> 'a list \<Rightarrow> error + 'b list" where
  "map_throwing f [] = Inr []"
| "map_throwing f (x # xs) =
     (case f x of
        Inl err \<Rightarrow> Inl err
      | Inr y \<Rightarrow> (case map_throwing f xs of Inl err \<Rightarrow> Inl err | Inr ys \<Rightarrow> Inr (y # ys)))"

subsection \<open>The reads\<close>

definition getModels ::
  "env \<Rightarrow> ModelRegistryService \<Rightarrow> (error + ModelInfo list) \<times> ModelRegistryService" where
  "getModels e r =
     (case refreshModelsIfNeeded e r of
        (Inl err, r') \<Rightarrow> (Inl err, r')
      | (Inr _, r') \<Rightarrow> (map_throwing transformModel (map snd (models r')), r'))"

text \<open>\<open>getModel\<close>; \<open>None\<close> is \<open>null\<close>.\<close>

definition getModel ::
  "env \<Rightarrow> string \<Rightarrow> ModelRegistryService \<Rightarrow> (error + ModelInfo option) \<times> ModelRegistryService" where
  "getModel e modelId r =
     (case refreshModelsIfNeeded e r of
        (Inl err, r') \<Rightarrow> (Inl err, r')
      | (Inr _, r') \<Rightarrow>
          (case map_of (models r') modelId of
             None \<Rightarrow> (Inr None, r')
           | Some m \<Rightarrow>
               (case transformModel m of
                  Inl err \<Rightarrow> (Inl err, r')
                | Inr i \<Rightarrow> (Inr (Some i), r'))))"

definition validateModel ::
  "env \<Rightarrow> string \<Rightarrow> ModelRegistryService \<Rightarrow> (error + bool) \<times> ModelRegistryService" where
  "validateModel e modelId r =
     (case getModel e modelId r of
        (Inl err, r') \<Rightarrow> (Inl err, r')
      | (Inr model, r') \<Rightarrow> (Inr (model \<noteq> None), r'))"

definition getSupportedParameters ::
  "env \<Rightarrow> string \<Rightarrow> ModelRegistryService \<Rightarrow> (error + string list) \<times> ModelRegistryService" where
  "getSupportedParameters e modelId r =
     (case getModel e modelId r of
        (Inl err, r') \<Rightarrow> (Inl err, r')
      | (Inr None, r') \<Rightarrow> (Inr [], r')
      | (Inr (Some model), r') \<Rightarrow>
          (case getProviderSpecificParameters (getProviderFromModelId modelId) of
             Inl err \<Rightarrow> (Inl err, r')
           | Inr ps \<Rightarrow> (Inr (baseParameters @ ps), r')))"

text \<open>The registry's own \<open>getModelPricing\<close>: \<open>model?.pricing || null\<close>.\<close>

definition registry_getModelPricing ::
  "env \<Rightarrow> string \<Rightarrow> ModelRegistryService \<Rightarrow> (error + Pricing option) \<times> ModelRegistryService" where
  "registry_getModelPricing e modelId r =
     (case getModel e modelId r of
        (Inl err, r') \<Rightarrow> (Inl err, r')
      | (Inr None, r') \<Rightarrow> (Inr None, r')
      | (Inr (Some model), r') \<Rightarrow> (Inr (Some (info_pricing model)), r'))"

text \<open>\<open>model?.context_length || 0\<close>.\<close>

definition getModelContextLength ::
  "env \<Rightarrow> string \<Rightarrow> ModelRegistryService \<Rightarrow> (error + int) \<times> ModelRegistryService" where
  "getModelContextLength e modelId r =
     (case getModel e modelId r of
        (Inl err, r') \<Rightarrow> (Inl err, r')
      | (Inr None, r') \<Rightarrow> (Inr 0, r')
      | (Inr (Some model), r') \<Rightarrow> (Inr (info_context_length model), r'))"

text \<open>\<open>model?.is_moderated || false\<close>.\<close>

definition isModelModerated ::
  "env \<Rightarrow> string \<Rightarrow> ModelRegistryService \<Rightarrow> (error + bool) \<times> ModelRegistryService" where
  "isModelModerated e modelId r =
     (case getModel e modelId r of
        (Inl err, r') \<Rightarrow> (Inl err, r')
      | (Inr None, r') \<Rightarrow> (Inr False, r')
      | (Inr (Some model), r') \<Rightarrow> (Inr (info_is_moderated model), r'))"

text \<open>
  \<open>xs.slice(0, limit)\<close>: a negative \<open>limit\<close> counts from the end.
\<close>

definition slice0 :: "int \<Rightarrow> 'a list \<Rightarrow> 'a list" where
  "slice0 limit xs =
     (if limit < 0 then take (nat (int (length xs) + limit)) xs else take (nat limit) xs)"

text \<open>
  \<open>getTopModels\<close>: \<open>sort\<close> is stable, the comparator orders by decreasing
  context length; \<open>limit\<close> defaults to 10.
\<close>

definition getTopModels ::
  "env \<Rightarrow> int option \<Rightarrow> ModelRegistryService \<Rightarrow> (error + ModelInfo list) \<times> ModelRegistryService" where
  "getTopModels e limit r =
     (case getModels e r of
        (Inl err, r') \<Rightarrow> (Inl err, r')
      | (Inr ms, r') \<Rightarrow>
          (Inr (slice0 (case limit of None \<Rightarrow> 10 | Some l \<Rightarrow> l)
                  (sort_key (\<lambda>m. - info_context_length m) ms)), r'))"

text \<open>
  \<open>searchModels\<close>.  \<open>toLowerCase\<close> is the built-in
  \<open>String.prototype.toLowerCase\<close>, taken as it is.
\<close>

definition searchModels ::
  "(string \<Rightarrow> string) \<Rightarrow> env \<Rightarrow> string \<Rightarrow> ModelRegistryService \<Rightarrow>
   (error + ModelInfo list) \<times> ModelRegistryService" where
  "searchModels toLowerCase e query r =
     (case getModels e r of
        (Inl err, r') \<Rightarrow> (Inl err, r')
      | (Inr ms, r') \<Rightarrow>
          (let lowercaseQuery = toLowerCase query in
           (Inr (filter (\<lambda>model.
                    includes_str (toLowerCase (info_id model)) lowercaseQuery \<or>
                    includes_str (toLowerCase (info_name model)) lowercaseQuery \<or>
                    (case info_description model of
                       None \<Rightarrow> False
                     | Some d \<Rightarrow> d \<noteq> [] \<and> includes_str (toLowerCase d) lowercaseQuery)) ms),
            r')))"

definition getModelsByProvider ::
  "env \<Rightarrow> string \<Rightarrow> ModelRegistryService \<Rightarrow> (error + ModelInfo list) \<times> ModelRegistryService" where
  "getModelsByProvider e provider r =
     (case getModels e r of
        (Inl err, r') \<Rightarrow> (Inl err, r')
      | (Inr ms, r') \<Rightarrow>
          (Inr (filter (\<lambda>model. getProviderFromModelId (info_id model) = provider) ms), r'))"

subsection \<open>Readers that overlap\<close>

text \<open>
  The process runs one task at a time and a task gives way only at an
  \<open>await\<close>.  A read has one such point, inside \<open>refreshModels\<close>: the reader
  tests the catalog, sends \<open>GET /models\<close> and waits; when the answer to its
  request arrives it resumes, and on success replaces the map and sets the
  timestamp.  \<open>pending\<close> lists the readers that wait for their answer, in the
  order their requests were sent; a reader is named by a number.
\<close>

record registry_system =
  registry :: ModelRegistryService
  pending :: "nat list"

text \<open>The number of requests sent and not yet answered.\<close>

definition in_flight :: "registry_system \<Rightarrow> nat" where
  "in_flight s = length (pending s)"

text \<open>
  A reader arrives at some time, or the answer to a reader's request arrives.
\<close>

datatype registry_event =
    ReaderArrives nat int
  | AnswerArrives nat "error + Model list" int

text \<open>
  One step.  An answer resumes only the reader that waits for it: an answer
  for a reader that is not pending does not occur, and changes nothing.
\<close>

fun registry_step :: "registry_system \<Rightarrow> registry_event \<Rightarrow> registry_system" where
  "registry_step s (ReaderArrives reader t) =
     (if needs_refresh t (registry s)
      then s\<lparr>registry := (registry s)\<lparr>openrouterService :=
                 (openrouterService (registry s))\<lparr>requestCount :=
                    requestCount (openrouterService (registry s)) + 1\<rparr>\<rparr>,
             pending := pending s @ [reader]\<rparr>
      else s)"
| "registry_step s (AnswerArrives reader answer t) =
     (if reader \<in> set (pending s) then
        (case answer of
           Inl err \<Rightarrow> s\<lparr>pending := remove1 reader (pending s)\<rparr>
         | Inr ms \<Rightarrow>
             s\<lparr>registry := (registry s)\<lparr>models := fill_models ms, lastUpdated := t\<rparr>,
               pending := remove1 reader (pending s)\<rparr>)
      else s)"

definition registry_run :: "registry_system \<Rightarrow> registry_event list \<Rightarrow> registry_system" where
  "registry_run s evs = foldl registry_step s evs"

subsection \<open>A small catalog\<close>

text \<open>Two catalog entries and a registry that holds them, for concrete runs.\<close>

definition example_model :: "string \<Rightarrow> int \<Rightarrow> Model" where
  "example_model i n =
     \<lparr>model_id = i, model_name = i, model_description = None, model_context_length = n,
      model_pricing = Some \<lparr>prompt = ''0.000001'', completion = ''0.000002''\<rparr>,
      architecture = \<lparr>modality = ''text'', tokenizer = ''GPT'', instruct_type = None\<rparr>,
      top_provider = \<lparr>top_context_length = n, max_completion_tokens = None, is_moderated = True\<rparr>,
      per_request_limits = None\<rparr>"

definition example_catalog :: "Model list" where
  "example_catalog = [example_model ''openai/gpt-4'' 8192, example_model ''mistral/tiny'' 32000]"

definition example_registry :: ModelRegistryService where
  "example_registry =
     \<lparr>models = fill_models example_catalog, lastUpdated = 1000000,
      openrouterService = \<lparr>requestCount = 1\<rparr>\<rparr>"

section \<open>JSON values\<close>

text \<open>
  The values \<open>JSON.parse\<close> returns.  Numbers are the integers (the fields read
  here are counts, codes and timestamps).  \<open>undefined\<close> is not a JSON value: a
  property read yields a \<open>json option\<close>, with \<open>None\<close> for \<open>undefined\<close>.
\<close>

datatype json =
    JNull
  | JBool bool
  | JNumber int
  | JString string
  | JArray "json list"
  | JObject "(string \<times> json) list"

text \<open>
  \<open>v.k\<close>: reading a property of \<open>null\<close> throws; an object yields its own
  member; any other value has none of the members read here.
\<close>

fun get_prop :: "json \<Rightarrow> string \<Rightarrow> error + json option" where
  "get_prop JNull k = Inl (TypeError ''Cannot read properties of null'')"
| "get_prop (JObject kvs) k = Inr (map_of kvs k)"
| "get_prop v k = Inr None"

text \<open>\<open>v?.k\<close>: \<open>undefined\<close> when \<open>v\<close> is \<open>null\<close> or \<open>undefined\<close>.\<close>

fun opt_prop :: "json option \<Rightarrow> string \<Rightarrow> json option" where
  "opt_prop None k = None"
| "opt_prop (Some JNull) k = None"
| "opt_prop (Some (JObject kvs)) k = map_of kvs k"
| "opt_prop (Some v) k = None"

text \<open>
  \<open>v?.[0]\<close>: the first element of an array, the first character of a string,
  the member \<open>0\<close> of an object.
\<close>

fun opt_first :: "json option \<Rightarrow> json option" where
  "opt_first (Some (JArray (x # xs))) = Some x"
| "opt_first (Some (JString (c # cs))) = Some (JString [c])"
| "opt_first (Some (JObject kvs)) = map_of kvs ''0''"
| "opt_first v = None"

text \<open>Truthiness: \<open>undefined\<close>, \<open>null\<close>, \<open>false\<close>, \<open>0\<close> and \<open>''\<close> are falsy.\<close>

fun truthy :: "json option \<Rightarrow> bool" where
  "truthy None = False"
| "truthy (Some JNull) = False"
| "truthy (Some (JBool b)) = b"
| "truthy (Some (JNumber n)) = (n \<noteq> 0)"
| "truthy (Some (JString s)) = (s \<noteq> [])"
| "truthy (Some v) = True"

text \<open>
  The string \<open>s += v\<close> appends for a value \<open>v\<close>: a string as it is, a number in
  decimal, an array as its elements joined by commas (\<open>null\<close> as nothing), an
  object as \<open>[object Object]\<close>.
\<close>

definition int_toString :: "int \<Rightarrow> string" where
  "int_toString i = (if i < 0 then CHR ''-'' # number_toString (nat (- i)) else number_toString (nat i))"

fun join_comma :: "string list \<Rightarrow> string" where
  "join_comma [] = []"
| "join_comma [x] = x"
| "join_comma (x # y # ys) = x @ '','' @ join_comma (y # ys)"

fun js_String :: "json \<Rightarrow> string" where
  "js_String JNull = ''null''"
| "js_String (JBool b) = (if b then ''true'' else ''false'')"
| "js_String (JNumber n) = int_toString n"
| "js_String (JString s) = s"
| "js_String (JArray xs) = join_comma (map (\<lambda>x. if x = JNull then [] else js_String x) xs)"
| "js_String (JObject kvs) = ''[object Object]''"

text \<open>
  \<open>s.trim()\<close>: white space (tab, line feed, vertical tab, form feed, carriage
  return, space, no-break space) leaves both ends.
\<close>

definition is_space :: "char \<Rightarrow> bool" where
  "is_space c = ((of_char c :: nat) \<in> {9, 10, 11, 12, 13, 32, 160})"

definition trim :: "string \<Rightarrow> string" where
  "trim s = rev (dropWhile is_space (rev (dropWhile is_space s)))"

section \<open>services/openrouterService.ts: the streaming transform\<close>

text \<open>
  \<open>transformStreamingChunk\<close>.  \<open>chunk.choices.map\<close> is a function only when
  \<open>choices\<close> is an array; the callback reads properties of each choice, which
  throws on \<open>null\<close>.  The result is the object returned, members that are
  \<open>undefined\<close> left out.
\<close>

definition opt_member :: "string \<Rightarrow> json option \<Rightarrow> (string \<times> json) list" where
  "opt_member k v = (case v of None \<Rightarrow> [] | Some x \<Rightarrow> [(k, x)])"

definition transform_choice :: "json \<Rightarrow> error + json" where
  "transform_choice choice =
     (case get_prop choice ''finish_reason'' of
        Inl err \<Rightarrow> Inl err
      | Inr fr \<Rightarrow>
          (case get_prop choice ''delta'' of
             Inl err \<Rightarrow> Inl err
           | Inr delta \<Rightarrow>
               Inr (JObject
                 (opt_member ''finish_reason'' fr @
                  [(''delta'', JObject
                     ([(''content'', (case opt_prop delta ''content'' of
                                        None \<Rightarrow> JNull
                                      | Some c \<Rightarrow> (if truthy (Some c) then c else JNull)))] @
                      opt_member ''role'' (opt_prop delta ''role'') @
                      opt_member ''tool_calls'' (opt_prop delta ''tool_calls'')))]))))"

definition transformStreamingChunk :: "json \<Rightarrow> error + json" where
  "transformStreamingChunk chunk =
     (case get_prop chunk ''id'' of
        Inl err \<Rightarrow> Inl err
      | Inr cid \<Rightarrow>
          (case get_prop chunk ''choices'' of
             Inl err \<Rightarrow> Inl err
           | Inr (Some (JArray cs)) \<Rightarrow>
               (case map_throwing transform_choice cs of
                  Inl err \<Rightarrow> Inl err
                | Inr cs' \<Rightarrow>
                    (case (get_prop chunk ''model'', get_prop chunk ''created'') of
                       (Inr m, Inr cr) \<Rightarrow>
                         Inr (JObject
                           (opt_member ''id'' cid @ [(''choices'', JArray cs')] @
                            opt_member ''model'' m @ opt_member ''created'' cr @
                            [(''object'', JString ''chat.completion.chunk'')]))
                     | _ \<Rightarrow> Inl (TypeError ''Cannot read properties of null'')))
           | Inr _ \<Rightarrow> Inl (TypeError ''chunk.choices.map is not a function'')))"

text \<open>
  The value of \<open>this\<close> where a method is called.  \<open>transformStreamingChunk\<close> is a
  method of the service; the object literal handed to \<open>new ReadableStream\<close> has
  the single member \<open>start\<close>.
\<close>

datatype this_value = ThisOpenRouterService | ThisUnderlyingSource

text \<open>\<open>(this as any).transformStreamingChunk\<close>; \<open>None\<close> is \<open>undefined\<close>.\<close>

fun this_transformStreamingChunk :: "this_value \<Rightarrow> (json \<Rightarrow> error + json) option" where
  "this_transformStreamingChunk ThisOpenRouterService = Some transformStreamingChunk"
| "this_transformStreamingChunk ThisUnderlyingSource = None"

text \<open>
  The readable stream as its controller sees it: the chunks enqueued, whether
  \<open>close\<close> or \<open>error\<close> has been called, the text kept between two \<open>data\<close>
  events, and the exceptions that left a listener uncaught.  An enqueued chunk
  is the string \<open>JSON.stringify(transformed) + '\n'\<close>; the queue holds the
  value \<open>transformed\<close> it is the text of.
\<close>

record stream_state =
  buffer :: string
  queue :: "json list"
  closed :: bool
  errored :: "error option"
  uncaught :: "error list"

definition initial_stream :: stream_state where
  "initial_stream = \<lparr>buffer = [], queue = [], closed = False, errored = None, uncaught = []\<rparr>"

text \<open>
  \<open>controller.enqueue\<close> and \<open>controller.close\<close> throw once the stream is closed
  or errored.
\<close>

definition controller_enqueue :: "json \<Rightarrow> stream_state \<Rightarrow> error + stream_state" where
  "controller_enqueue v st =
     (if closed st \<or> errored st \<noteq> None then Inl (TypeError ''Invalid state: Controller is already closed'')
      else Inr (st\<lparr>queue := queue st @ [v]\<rparr>))"

definition controller_close :: "stream_state \<Rightarrow> error + stream_state" where
  "controller_close st =
     (if closed st \<or> errored st \<noteq> None then Inl (TypeError ''Invalid state: Controller is already closed'')
      else Inr (st\<lparr>closed := True\<rparr>))"

text \<open>
  The \<open>try\<close> block of the \<open>data\<close> listener for one payload: parse, transform,
  enqueue; whatever is thrown there is caught and dropped.  \<open>JSON_parse\<close> is the
  built-in parser (\<open>None\<close>: it throws).  Calling a member that is \<open>undefined\<close>
  throws a \<open>TypeError\<close>, which this \<open>catch\<close> swallows like any other.
\<close>

definition try_enqueue ::
  "(string \<Rightarrow> json option) \<Rightarrow> this_value \<Rightarrow> string \<Rightarrow> stream_state \<Rightarrow> stream_state" where
  "try_enqueue JSON_parse this payload st =
     (case JSON_parse payload of
        None \<Rightarrow> st
      | Some parsed \<Rightarrow>
          (case this_transformStreamingChunk this of
             None \<Rightarrow> st
           | Some method \<Rightarrow>
               (case method parsed of
                  Inl err \<Rightarrow> st
                | Inr transformed \<Rightarrow>
                    (case controller_enqueue transformed st of
                       Inl err \<Rightarrow> st
                     | Inr st' \<Rightarrow> st'))))"

text \<open>
  The \<open>for\<close> loop over the complete lines.  At \<open>[DONE]\<close> the listener closes
  the stream and returns, leaving the lines after it; a \<open>close\<close> that throws
  leaves the listener too, uncaught.
\<close>

fun process_lines ::
  "(string \<Rightarrow> json option) \<Rightarrow> this_value \<Rightarrow> string list \<Rightarrow> stream_state \<Rightarrow> stream_state" where
  "process_lines JSON_parse this [] st = st"
| "process_lines JSON_parse this (line # rest) st =
     (let trimmedLine = trim line in
      if startsWith trimmedLine ''data: '' then
        (let payload = drop 6 trimmedLine in
         if payload = ''[DONE]'' then
           (case controller_close st of
              Inl err \<Rightarrow> st\<lparr>uncaught := uncaught st @ [err]\<rparr>
            | Inr st' \<Rightarrow> st')
         else process_lines JSON_parse this rest (try_enqueue JSON_parse this payload st))
      else process_lines JSON_parse this rest st)"

text \<open>
  The \<open>data\<close> listener: append the decoded chunk, split at line feeds, keep the
  last piece as the new buffer, process the others.
\<close>

definition on_data ::
  "(string \<Rightarrow> json option) \<Rightarrow> this_value \<Rightarrow> string \<Rightarrow> stream_state \<Rightarrow> stream_state" where
  "on_data JSON_parse this chunk st =
     (let lines = split_str CHR ''\<newline>'' (buffer st @ chunk) in
      process_lines JSON_parse this (butlast lines) (st\<lparr>buffer := last lines\<rparr>))"

definition on_end :: "stream_state \<Rightarrow> stream_state" where
  "on_end st =
     (case controller_close st of
        Inl err \<Rightarrow> st\<lparr>uncaught := uncaught st @ [err]\<rparr>
      | Inr st' \<Rightarrow> st')"

text \<open>\<open>controller.error\<close> has no effect on a stream that is closed or errored.\<close>

definition on_error :: "error \<Rightarrow> stream_state \<Rightarrow> stream_state" where
  "on_error err st = (if closed st \<or> errored st \<noteq> None then st else st\<lparr>errored := Some err\<rparr>)"

text \<open>What the upstream response stream emits.\<close>

datatype stream_event = Data string | End | Error error

fun on_event ::
  "(string \<Rightarrow> json option) \<Rightarrow> this_value \<Rightarrow> stream_state \<Rightarrow> stream_event \<Rightarrow> stream_state" where
  "on_event JSON_parse this st (Data chunk) = on_data JSON_parse this chunk st"
| "on_event JSON_parse this st End = on_end st"
| "on_event JSON_parse this st (Error err) = on_error err st"

text \<open>
  The listeners with \<open>this\<close> left open, for comparison, and
  \<open>transformStreamingResponse\<close> as written: \<open>start(controller)\<close> is a method of
  the object literal, the stream's constructor calls it on that object, and the
  arrow functions registered inside it see the same \<open>this\<close>.
\<close>

definition run_listeners ::
  "(string \<Rightarrow> json option) \<Rightarrow> this_value \<Rightarrow> stream_event list \<Rightarrow> stream_state" where
  "run_listeners JSON_parse this evs = foldl (on_event JSON_parse this) initial_stream evs"

definition transformStreamingResponse ::
  "(string \<Rightarrow> json option) \<Rightarrow> stream_event list \<Rightarrow> stream_state" where
  "transformStreamingResponse JSON_parse evs = run_listeners JSON_parse ThisUnderlyingSource evs"

subsection \<open>A well-formed feed\<close>

text \<open>
  Three frames and the sentinel, each sent as \<open>data: <payload>\<close> and an empty
  line, then the end of the upstream response.  A payload is the JSON text
  \<open>{"id":"gen-1","choices":[{"delta":{"content":"<w>"}}]}\<close>; \<open>example_value\<close>
  is the value \<open>JSON.parse\<close> returns for it, and \<open>example_parse\<close> is
  \<open>JSON.parse\<close> on the three payloads.
\<close>

definition dq :: char where
  "dq = CHR 0x22"

definition example_payload :: "string \<Rightarrow> string" where
  "example_payload w =
     ''{'' @ [dq] @ ''id'' @ [dq] @ '':'' @ [dq] @ ''gen-1'' @ [dq] @ '','' @
     [dq] @ ''choices'' @ [dq] @ '':[{'' @ [dq] @ ''delta'' @ [dq] @ '':{'' @
     [dq] @ ''content'' @ [dq] @ '':'' @ [dq] @ w @ [dq] @ ''}}]}''"

definition example_value :: "string \<Rightarrow> json" where
  "example_value w =
     JObject [(''id'', JString ''gen-1''),
              (''choices'', JArray [JObject [(''delta'', JObject [(''content'', JString w)])]])]"

definition example_parse :: "string \<Rightarrow> json option" where
  "example_parse s =
     (if s = example_payload ''Hel'' then Some (example_value ''Hel'')
      else if s = example_payload ''lo'' then Some (example_value ''lo'')
      else if s = example_payload ''!'' then Some (example_value ''!'')
      else None)"

definition frame :: "string \<Rightarrow> string" where
  "frame payload = ''data: '' @ payload @ [CHR ''\<newline>'', CHR ''\<newline>'']"

definition example_feed :: "stream_event list" where
  "example_feed =
     [Data (frame (example_payload ''Hel'')), Data (frame (example_payload ''lo'')),
      Data (frame (example_payload ''!'')), Data (frame ''[DONE]''), End]"

section \<open>controllers/websocketController.ts\<close>

subsection \<open>Messages and sockets (types/websocket.ts)\<close>

record InferenceRequestData =
  req_model :: string
  req_messages :: "Message list"
  req_params :: "(string \<times> json) list"

record ResponseData =
  resp_content :: "json option"
  resp_finish_reason :: "json option"
  resp_usage :: "json option"
  resp_model :: "json option"
  resp_created :: "json option"

record ErrorBody =
  err_code :: int
  err_message :: string
  err_type :: string
  err_details :: "json option"

text \<open>
  The five message shapes.  An error message is \<open>{type: 'error', id, error}\<close>:
  \<open>ErrorMsg id error\<close>.
\<close>

datatype WebSocketMessage =
    InferenceRequestMsg string InferenceRequestData
  | InferenceResponseMsg string ResponseData
  | ErrorMsg string ErrorBody
  | HeartbeatMsg int
  | CloseMsg "string option" "int option"

fun message_type :: "WebSocketMessage \<Rightarrow> string" where
  "message_type (InferenceRequestMsg i d) = ''inference_request''"
| "message_type (InferenceResponseMsg i d) = ''inference_response''"
| "message_type (ErrorMsg i b) = ''error''"
| "message_type (HeartbeatMsg t) = ''heartbeat''"
| "message_type (CloseMsg r c) = ''close''"

datatype readyState = CONNECTING | OPEN | CLOSING | CLOSED

text \<open>
  A socket: its state, the messages sent on it in order, and the close frame
  once \<open>close\<close> was called.
\<close>

record WebSocket =
  readyState :: readyState
  sent :: "WebSocketMessage list"
  closeFrame :: "(int \<times> string) option"

record WebSocketConnection =
  conn_id :: string
  connectedAt :: int
  lastActivity :: int
  isActive :: bool
  currentRequestId :: "string option"
  ip :: string
  userAgent :: string

record WebSocketStats =
  totalConnections :: int
  activeConnections :: int
  totalMessages :: int
  totalErrors :: int
  averageConnectionDuration :: real
  peakConnections :: int

text \<open>
  The controller: the \<open>connections\<close> map (entries in insertion order) and the
  statistics.  Beside them, \<open>cleanups\<close> holds the pending \<open>setTimeout\<close>
  callbacks of \<open>handleDisconnection\<close> (due time and connection), and
  \<open>streamingCalls\<close> and \<open>pingsSent\<close> record what left the controller: the
  requests handed to \<open>createStreamingCompletion\<close>, in order, and the number of
  \<open>ping\<close> calls.
\<close>

record WebSocketController =
  connections :: "(string \<times> WebSocketConnection) list"
  stats :: WebSocketStats
  cleanups :: "(int \<times> string) list"
  streamingCalls :: "InferenceRequestData list"
  pingsSent :: nat

definition new_WebSocketController :: WebSocketController where
  "new_WebSocketController =
     \<lparr>connections = [],
      stats = \<lparr>totalConnections = 0, activeConnections = 0, totalMessages = 0,
               totalErrors = 0, averageConnectionDuration = 0, peakConnections = 0\<rparr>,
      cleanups = [], streamingCalls = [], pingsSent = 0\<rparr>"

text \<open>
  A connection is an object held by reference: an assignment to one of its
  fields shows in the map's entry.
\<close>

definition update_connection ::
  "string \<Rightarrow> (WebSocketConnection \<Rightarrow> WebSocketConnection) \<Rightarrow>
   (string \<times> WebSocketConnection) list \<Rightarrow> (string \<times> WebSocketConnection) list" where
  "update_connection k f conns = map (\<lambda>(k', c). if k' = k then (k', f c) else (k', c)) conns"

definition Map_delete :: "string \<Rightarrow> (string \<times> 'v) list \<Rightarrow> (string \<times> 'v) list" where
  "Map_delete k m = filter (\<lambda>(k', v). k' \<noteq> k) m"

subsection \<open>Sending\<close>

definition sendMessage :: "WebSocketMessage \<Rightarrow> WebSocket \<Rightarrow> WebSocket" where
  "sendMessage message ws =
     (if readyState ws = OPEN then ws\<lparr>sent := sent ws @ [message]\<rparr> else ws)"

text \<open>\<open>ws.close(code, reason)\<close> on an open socket starts the closing handshake.\<close>

definition ws_close :: "int \<Rightarrow> string \<Rightarrow> WebSocket \<Rightarrow> WebSocket" where
  "ws_close code reason ws =
     (if readyState ws = OPEN then ws\<lparr>readyState := CLOSING, closeFrame := Some (code, reason)\<rparr>
      else ws)"

text \<open>
  The \<open>error: any\<close> argument of \<open>sendError\<close>: each member may be missing.
\<close>

record ErrorArg =
  arg_code :: "int option"
  arg_message :: "string option"
  arg_type :: "string option"
  arg_details :: "json option"

text \<open>
  \<open>sendError\<close>: the message's \<open>id\<close> is the \<open>connectionId\<close> argument; the
  members of \<open>error\<close> get their defaults through \<open>||\<close>.
\<close>

definition sendError :: "string \<Rightarrow> ErrorArg \<Rightarrow> WebSocket \<Rightarrow> WebSocket" where
  "sendError connectionId err ws =
     sendMessage
       (ErrorMsg connectionId
          \<lparr>err_code = (case arg_code err of None \<Rightarrow> 500 | Some c \<Rightarrow> (if c = 0 then 500 else c)),
           err_message = (case arg_message err of
                            None \<Rightarrow> ''Unknown error''
                          | Some m \<Rightarrow> (if m = [] then ''Unknown error'' else m)),
           err_type = (case arg_type err of
                         None \<Rightarrow> ''internal''
                       | Some t \<Rightarrow> (if t = [] then ''internal'' else t)),
           err_details = arg_details err\<rparr>)
       ws"

subsection \<open>Connection lifecycle\<close>

text \<open>
  \<open>handleConnection\<close>; \<open>allowed\<close> is what \<open>websocketRateLimiter(ip, 5)\<close>
  answered and \<open>connectionId\<close> the fresh \<open>uuidv4()\<close>.
\<close>

definition handleConnection ::
  "bool \<Rightarrow> string \<Rightarrow> string \<Rightarrow> string \<Rightarrow> int \<Rightarrow> WebSocket \<Rightarrow> WebSocketController \<Rightarrow>
   WebSocket \<times> WebSocketController" where
  "handleConnection allowed connectionId ipaddr agent t ws ctrl =
     (if \<not> allowed then (ws_close 1008 ''Rate limit exceeded'' ws, ctrl)
      else
        (let connection = \<lparr>conn_id = connectionId, connectedAt = t, lastActivity = t,
                            isActive = True, currentRequestId = None,
                            ip = ipaddr, userAgent = agent\<rparr>;
             st = stats ctrl;
             active = activeConnections st + 1
         in (sendMessage (HeartbeatMsg t) ws,
             ctrl\<lparr>connections := Map_set connectionId connection (connections ctrl),
                  stats := st\<lparr>totalConnections := totalConnections st + 1,
                             activeConnections := active,
                             peakConnections := max (peakConnections st) active\<rparr>\<rparr>)))"

text \<open>
  \<open>handleDisconnection\<close>: the record stays in the map; its removal is
  scheduled 30 seconds ahead.
\<close>

definition handleDisconnection :: "string \<Rightarrow> int \<Rightarrow> WebSocketController \<Rightarrow> WebSocketController" where
  "handleDisconnection connectionId t ctrl =
     (case map_of (connections ctrl) connectionId of
        None \<Rightarrow> ctrl
      | Some connection \<Rightarrow>
          (let st = stats ctrl;
               duration = t - connectedAt connection
           in ctrl\<lparr>connections := update_connection connectionId (\<lambda>c. c\<lparr>isActive := False\<rparr>)
                                       (connections ctrl),
                   stats := st\<lparr>activeConnections := activeConnections st - 1,
                              averageConnectionDuration :=
                                (averageConnectionDuration st * real_of_int (totalConnections st - 1)
                                 + real_of_int duration) / real_of_int (totalConnections st)\<rparr>,
                   cleanups := cleanups ctrl @ [(t + 30000, connectionId)]\<rparr>))"

text \<open>The timer callbacks that are due at \<open>t\<close> run: each deletes its connection.\<close>

definition run_cleanups :: "int \<Rightarrow> WebSocketController \<Rightarrow> WebSocketController" where
  "run_cleanups t ctrl =
     ctrl\<lparr>connections := foldl (\<lambda>m (due, k). if due \<le> t then Map_delete k m else m)
                             (connections ctrl) (cleanups ctrl),
          cleanups := filter (\<lambda>(due, k). \<not> due \<le> t) (cleanups ctrl)\<rparr>"

subsection \<open>The heartbeat sweep\<close>

definition heartbeat_timeout :: int where
  "heartbeat_timeout = 60000"

text \<open>
  The body of the \<open>for\<close> loop of \<open>startHeartbeat\<close> for one entry.
  \<open>openClients\<close> is the number of sockets in \<open>wss.clients\<close> that are open, each
  of which gets a ping.
\<close>

definition sweep_entry ::
  "int \<Rightarrow> nat \<Rightarrow> WebSocketController \<Rightarrow> string \<times> WebSocketConnection \<Rightarrow> WebSocketController" where
  "sweep_entry t openClients ctrl entry =
     (case entry of (connectionId, connection) \<Rightarrow>
        if t - lastActivity connection > heartbeat_timeout then
          ctrl\<lparr>connections := update_connection connectionId (\<lambda>c. c\<lparr>isActive := False\<rparr>)
                                  (connections ctrl),
               stats := (stats ctrl)\<lparr>activeConnections := activeConnections (stats ctrl) - 1\<rparr>\<rparr>
        else if isActive connection then ctrl\<lparr>pingsSent := pingsSent ctrl + openClients\<rparr>
        else ctrl)"

text \<open>One run of the interval callback, at time \<open>t\<close>.\<close>

definition heartbeat_sweep :: "int \<Rightarrow> nat \<Rightarrow> WebSocketController \<Rightarrow> WebSocketController" where
  "heartbeat_sweep t openClients ctrl = foldl (sweep_entry t openClients) ctrl (connections ctrl)"

definition getConnections :: "WebSocketController \<Rightarrow> WebSocketConnection list" where
  "getConnections ctrl = map snd (connections ctrl)"

subsection \<open>Inference requests\<close>

text \<open>
  The body of the \<open>try\<close> inside the read loop, for one line: parse it, add
  the delta content to \<open>content\<close> when truthy, send the response.  A line that
  does not parse, or whose value is \<open>null\<close>, throws and is skipped.
\<close>

definition relay_line ::
  "(string \<Rightarrow> json option) \<Rightarrow> string \<Rightarrow> string \<Rightarrow> WebSocket \<times> string \<Rightarrow> WebSocket \<times> string" where
  "relay_line JSON_parse requestId line acc =
     (case acc of (ws, content_acc) \<Rightarrow>
        if trim line = [] then acc
        else
          (case JSON_parse line of
             None \<Rightarrow> acc
           | Some JNull \<Rightarrow> acc
           | Some d \<Rightarrow>
               (let choice = opt_first (opt_prop (Some d) ''choices'');
                    delta_content = opt_prop (opt_prop choice ''delta'') ''content''
                in (sendMessage
                      (InferenceResponseMsg requestId
                         \<lparr>resp_content = delta_content,
                          resp_finish_reason = opt_prop choice ''finish_reason'',
                          resp_usage = opt_prop (Some d) ''usage'',
                          resp_model = opt_prop (Some d) ''model'',
                          resp_created = opt_prop (Some d) ''created''\<rparr>)
                      ws,
                    (case delta_content of
                       None \<Rightarrow> content_acc
                     | Some c \<Rightarrow> (if truthy (Some c) then content_acc @ js_String c
                                  else content_acc))))))"

definition relay_chunk ::
  "(string \<Rightarrow> json option) \<Rightarrow> string \<Rightarrow> WebSocket \<times> string \<Rightarrow> string \<Rightarrow> WebSocket \<times> string" where
  "relay_chunk JSON_parse requestId acc chunk =
     foldl (\<lambda>a line. relay_line JSON_parse requestId line a) acc (split_str CHR ''\<newline>'' chunk)"

text \<open>
  What the two awaited calls of \<open>handleInferenceRequest\<close> come back with:
  \<open>validateModel\<close> with a boolean or a throw; \<open>createStreamingCompletion\<close> with
  a throw or a stream, which is read as the decoded chunks it delivers and the
  error that ends the reading, if one does.
\<close>

type_synonym stream_outcome = "error + (string list \<times> error option)"

definition internal_error :: "error \<Rightarrow> ErrorArg" where
  "internal_error err =
     \<lparr>arg_code = Some 500,
      arg_message = Some (if error_message err = [] then ''Internal server error''
                          else error_message err),
      arg_type = Some ''internal'',
      arg_details = None\<rparr>"

text \<open>The outer \<open>catch\<close> block.\<close>

definition inference_catch ::
  "string \<Rightarrow> error \<Rightarrow> WebSocket \<Rightarrow> WebSocketController \<Rightarrow> WebSocket \<times> WebSocketController" where
  "inference_catch connectionId err ws ctrl =
     (sendError connectionId (internal_error err) ws,
      ctrl\<lparr>stats := (stats ctrl)\<lparr>totalErrors := totalErrors (stats ctrl) + 1\<rparr>,
           connections := update_connection connectionId (\<lambda>c. c\<lparr>currentRequestId := None\<rparr>)
                            (connections ctrl)\<rparr>)"

text \<open>
  \<open>handleInferenceRequest\<close> up to its second \<open>await\<close>: the connection is looked
  up, the model validated, the request id stored in the connection and
  \<open>createStreamingCompletion\<close> called.  The boolean tells whether the handler
  now waits for the stream (\<open>True\<close>) or has returned.
\<close>

definition handleInferenceRequest_begin ::
  "string \<Rightarrow> string \<Rightarrow> InferenceRequestData \<Rightarrow> error + bool \<Rightarrow> WebSocket \<Rightarrow>
   WebSocketController \<Rightarrow> (WebSocket \<times> WebSocketController) \<times> bool" where
  "handleInferenceRequest_begin connectionId requestId d modelExists ws ctrl =
     (case map_of (connections ctrl) connectionId of
        None \<Rightarrow> ((ws, ctrl), False)
      | Some connection \<Rightarrow>
          (case modelExists of
             Inl err \<Rightarrow> (inference_catch connectionId err ws ctrl, False)
           | Inr False \<Rightarrow>
               ((sendError connectionId
                   \<lparr>arg_code = Some 400,
                    arg_message = Some (''Model '' @ [CHR 0x27] @ req_model d @ [CHR 0x27]
                                        @ '' not found or not supported''),
                    arg_type = Some ''validation'',
                    arg_details = None\<rparr> ws, ctrl), False)
           | Inr True \<Rightarrow>
               ((ws, ctrl\<lparr>connections :=
                            update_connection connectionId
                              (\<lambda>c. c\<lparr>currentRequestId := Some requestId\<rparr>) (connections ctrl),
                          streamingCalls := streamingCalls ctrl @ [d]\<rparr>), True)))"

text \<open>
  The rest of \<open>handleInferenceRequest\<close>, from the return of
  \<open>createStreamingCompletion\<close>: relay the chunks; \<open>finally\<close> clears the request
  id; a throw anywhere ends in the outer \<open>catch\<close>.
\<close>

definition handleInferenceRequest_finish ::
  "(string \<Rightarrow> json option) \<Rightarrow> string \<Rightarrow> string \<Rightarrow> stream_outcome \<Rightarrow> WebSocket \<Rightarrow>
   WebSocketController \<Rightarrow> WebSocket \<times> WebSocketController" where
  "handleInferenceRequest_finish JSON_parse connectionId requestId outcome ws ctrl =
     (case outcome of
        Inl err \<Rightarrow> inference_catch connectionId err ws ctrl
      | Inr (chunks, ending) \<Rightarrow>
          (let relayed = foldl (relay_chunk JSON_parse requestId) (ws, []) chunks;
               ctrl' = ctrl\<lparr>connections :=
                              update_connection connectionId (\<lambda>c. c\<lparr>currentRequestId := None\<rparr>)
                                (connections ctrl)\<rparr>
           in (case ending of
                 None \<Rightarrow> (fst relayed, ctrl')
               | Some err \<Rightarrow> inference_catch connectionId err (fst relayed) ctrl')))"

definition handleInferenceRequest ::
  "(string \<Rightarrow> json option) \<Rightarrow> string \<Rightarrow> string \<Rightarrow> InferenceRequestData \<Rightarrow> error + bool \<Rightarrow>
   stream_outcome \<Rightarrow> WebSocket \<Rightarrow> WebSocketController \<Rightarrow> WebSocket \<times> WebSocketController" where
  "handleInferenceRequest JSON_parse connectionId requestId d modelExists outcome ws ctrl =
     (case handleInferenceRequest_begin connectionId requestId d modelExists ws ctrl of
        ((ws', ctrl'), True) \<Rightarrow>
          handleInferenceRequest_finish JSON_parse connectionId requestId outcome ws' ctrl'
      | ((ws', ctrl'), False) \<Rightarrow> (ws', ctrl'))"

text \<open>The text the two handlers accumulate in \<open>content\<close> while relaying.\<close>

definition relayed_content :: "(string \<Rightarrow> json option) \<Rightarrow> string \<Rightarrow> string list \<Rightarrow> string" where
  "relayed_content JSON_parse requestId chunks =
     snd (foldl (relay_chunk JSON_parse requestId) (\<lparr>readyState = OPEN, sent = [], closeFrame = None\<rparr>, []) chunks)"

subsection \<open>Inbound messages\<close>

definition handleHeartbeat :: "int \<Rightarrow> WebSocket \<Rightarrow> WebSocket" where
  "handleHeartbeat t ws = sendMessage (HeartbeatMsg t) ws"

definition handleClose :: "string \<Rightarrow> WebSocket \<Rightarrow> WebSocket" where
  "handleClose reason ws = ws_close 1000 reason ws"

text \<open>
  What the awaited calls of one message's handling come back with.
\<close>

record awaited =
  modelExists :: "error + bool"
  stream :: stream_outcome

text \<open>\<open>processMessage\<close>: dispatch on \<open>message.type\<close>.\<close>

definition processMessage ::
  "(string \<Rightarrow> json option) \<Rightarrow> awaited \<Rightarrow> int \<Rightarrow> string \<Rightarrow> WebSocketMessage \<Rightarrow>
   WebSocket \<Rightarrow> WebSocketController \<Rightarrow> WebSocket \<times> WebSocketController" where
  "processMessage JSON_parse aw t connectionId message ws ctrl =
     (case map_of (connections ctrl) connectionId of
        None \<Rightarrow> (ws, ctrl)
      | Some connection \<Rightarrow>
          (case message of
             InferenceRequestMsg requestId d \<Rightarrow>
               handleInferenceRequest JSON_parse connectionId requestId d
                 (modelExists aw) (stream aw) ws ctrl
           | HeartbeatMsg ts \<Rightarrow> (handleHeartbeat t ws, ctrl)
           | CloseMsg reason code \<Rightarrow>
               (handleClose (case reason of
                               None \<Rightarrow> ''Client requested close''
                             | Some r \<Rightarrow> (if r = [] then ''Client requested close'' else r)) ws,
                ctrl)
           | _ \<Rightarrow>
               (sendError connectionId
                  \<lparr>arg_code = Some 400,
                   arg_message = Some (''Unknown message type: '' @ message_type message),
                   arg_type = Some ''validation'',
                   arg_details = None\<rparr> ws, ctrl)))"

text \<open>
  What \<open>JSON.parse\<close> and \<open>validateWebSocketMessage\<close> make of the received
  data: the parse throws, the schema rejects the value (with the details of
  the rejection), or the value is a message.
\<close>

datatype inbound = ParseThrows | Rejected "json option" | Valid WebSocketMessage

definition handleMessage ::
  "(string \<Rightarrow> json option) \<Rightarrow> awaited \<Rightarrow> int \<Rightarrow> string \<Rightarrow> inbound \<Rightarrow>
   WebSocket \<Rightarrow> WebSocketController \<Rightarrow> WebSocket \<times> WebSocketController" where
  "handleMessage JSON_parse aw t connectionId received ws ctrl =
     (case map_of (connections ctrl) connectionId of
        None \<Rightarrow> (ws, ctrl)
      | Some connection \<Rightarrow>
          (let ctrl1 = ctrl\<lparr>connections :=
                              update_connection connectionId (\<lambda>c. c\<lparr>lastActivity := t\<rparr>)
                                (connections ctrl),
                            stats := (stats ctrl)\<lparr>totalMessages := totalMessages (stats ctrl) + 1\<rparr>\<rparr>
           in (case received of
                 ParseThrows \<Rightarrow>
                   (sendError connectionId
                      \<lparr>arg_code = Some 400, arg_message = Some ''Invalid JSON message'',
                       arg_type = Some ''validation'', arg_details = None\<rparr> ws,
                    ctrl1\<lparr>stats := (stats ctrl1)\<lparr>totalErrors := totalErrors (stats ctrl1) + 1\<rparr>\<rparr>)
               | Rejected details \<Rightarrow>
                   (sendError connectionId
                      \<lparr>arg_code = Some 400, arg_message = Some ''Invalid WebSocket message format'',
                       arg_type = None, arg_details = details\<rparr> ws,
                    ctrl1)
               | Valid message \<Rightarrow> processMessage JSON_parse aw t connectionId message ws ctrl1)))"

subsection \<open>A connected session\<close>

definition open_socket :: WebSocket where
  "open_socket = \<lparr>readyState = OPEN, sent = [], closeFrame = None\<rparr>"

definition example_controller :: WebSocketController where
  "example_controller =
     snd (handleConnection True ''conn-1'' ''10.0.0.1'' ''agent'' 0 open_socket new_WebSocketController)"

definition example_request :: InferenceRequestData where
  "example_request =
     \<lparr>req_model = ''openai/gpt-4'',
      req_messages = [\<lparr>role = ''user'', content = ContentString ''hello world!''\<rparr>],
      req_params = []\<rparr>"

text \<open>
  The session while its first request, \<open>req-1\<close>, waits for the upstream
  stream.
\<close>

definition example_in_flight :: WebSocketController where
  "example_in_flight =
     snd (fst (handleInferenceRequest_begin ''conn-1'' ''req-1'' example_request (Inr True)
                 open_socket example_controller))"

section \<open>Properties: the string helpers\<close>

lemma startsWith_iff: "startsWith s p \<longleftrightarrow> (\<exists>r. s = p @ r)"
  by (induction s p rule: startsWith.induct) auto

lemma includes_str_iff: "includes_str s sub \<longleftrightarrow> (\<exists>pre post. s = pre @ sub @ post)"
proof (induction s)
  case Nil
  then show ?case by auto
next
  case (Cons c cs)
  show ?case
  proof
    assume "includes_str (c # cs) sub"
    then consider "startsWith (c # cs) sub" | "includes_str cs sub" by auto
    then show "\<exists>pre post. c # cs = pre @ sub @ post"
    proof cases
      case 1
      then obtain r where "c # cs = sub @ r" using startsWith_iff by blast
      then have "c # cs = [] @ sub @ r" by simp
      then show ?thesis by blast
    next
      case 2
      then obtain pre post where "cs = pre @ sub @ post" using Cons.IH by blast
      then have "c # cs = (c # pre) @ sub @ post" by simp
      then show ?thesis by blast
    qed
  next
    assume "\<exists>pre post. c # cs = pre @ sub @ post"
    then obtain pre post where h: "c # cs = pre @ sub @ post" by blast
    show "includes_str (c # cs) sub"
    proof (cases pre)
      case Nil
      then have "startsWith (c # cs) sub" using h startsWith_iff by auto
      then show ?thesis by simp
    next
      case (Cons a pre')
      then have "cs = pre' @ sub @ post" using h by simp
      then have "includes_str cs sub" using Cons.IH by blast
      then show ?thesis by simp
    qed
  qed
qed

lemma split_str_nonempty: "split_str sep s \<noteq> []"
  by (induction s) (auto split: list.splits)

lemma split_str_no_sep: "sep \<notin> set s \<Longrightarrow> split_str sep s = [s]"
  by (induction s) (auto split: list.splits)

lemma split_str_two: "sep \<in> set s \<Longrightarrow> 2 \<le> length (split_str sep s)"
proof (induction s)
  case Nil
  then show ?case by simp
next
  case (Cons c cs)
  then show ?case
    using split_str_nonempty[of sep cs]
    by (cases "split_str sep cs") (auto split: if_splits)
qed

lemma includes_char: "includes_str s [c] \<longleftrightarrow> c \<in> set s"
  by (induction s) auto

section \<open>Properties: utils/costCalculator.ts\<close>

subsection \<open>Pricing lookup and cost\<close>

lemma partial_match_None_iff:
  "partial_match b tbl = None \<longleftrightarrow>
     (\<forall>(modelName, pricing) \<in> set tbl. \<not> includes_str b modelName \<and> \<not> includes_str modelName b)"
  by (induction b tbl rule: partial_match.induct) auto

lemma partial_match_Some_mem:
  "partial_match b tbl = Some p \<Longrightarrow>
     \<exists>modelName. (modelName, p) \<in> set tbl \<and> (includes_str b modelName \<or> includes_str modelName b)"
  by (induction b tbl rule: partial_match.induct) (auto split: if_splits)

lemma getModelPricing_exact:
  "map_of MODEL_PRICING (baseModel model) = Some p \<Longrightarrow> getModelPricing model = PricingRecord p"
  by (simp add: getModelPricing_def MODEL_PRICING_get_def)

lemma getModelPricing_partial:
  "map_of MODEL_PRICING (baseModel model) = None \<Longrightarrow>
   baseModel model \<notin> set Object_prototype_members \<Longrightarrow>
   partial_match (baseModel model) MODEL_PRICING = Some p \<Longrightarrow>
   getModelPricing model = PricingRecord p"
  by (simp add: getModelPricing_def MODEL_PRICING_get_def)

lemma getModelPricing_default:
  "map_of MODEL_PRICING (baseModel model) = None \<Longrightarrow>
   baseModel model \<notin> set Object_prototype_members \<Longrightarrow>
   partial_match (baseModel model) MODEL_PRICING = None \<Longrightarrow>
   getModelPricing model = PricingRecord DEFAULT_PRICING"
  by (simp add: getModelPricing_def MODEL_PRICING_get_def)

lemma getModelPricing_inherited:
  "baseModel model \<in> set Object_prototype_members \<Longrightarrow>
   getModelPricing model = InheritedMember (baseModel model)"
  by (auto simp add: getModelPricing_def MODEL_PRICING_get_def MODEL_PRICING_def Object_prototype_members_def)

lemma calculateCost_formula:
  "getModelPricing model = PricingRecord p \<Longrightarrow>
   calculateCost usage model =
     Some ((prompt_tokens usage / 1000) * promptCostPer1K p
           + (completion_tokens usage / 1000) * completionCostPer1K p)"
  by (simp add: calculateCost_def)

lemma calculateCost_NaN:
  "getModelPricing model = InheritedMember m \<Longrightarrow> calculateCost usage model = None"
  by (simp add: calculateCost_def)

lemma getModelPricing_unknown_example:
  "getModelPricing ''meta-llama/llama-3-70b'' = PricingRecord DEFAULT_PRICING \<and>
   calculateCost \<lparr>prompt_tokens = 2000, completion_tokens = 1000, total_tokens = 3000\<rparr>
     ''meta-llama/llama-3-70b'' = Some 2.5"
proof -
  have "getModelPricing ''meta-llama/llama-3-70b'' = PricingRecord DEFAULT_PRICING"
    by (simp add: getModelPricing_def baseModel_def MODEL_PRICING_get_def MODEL_PRICING_def
        Object_prototype_members_def)
  then show ?thesis
    by (simp add: calculateCost_def DEFAULT_PRICING_def)
qed

text \<open>
  Claim C8.  The claim: for every model identifier with no exact or substring
  match in the pricing table, \<open>getModelPricing\<close> returns the default rates
  (0.5 and 1.5 per 1K), never zero rates and never an error, and
  \<open>calculateCost\<close> is prompt tokens / 1000 times the prompt rate plus
  completion tokens / 1000 times the completion rate, for the rates selected
  (exact match on the base name, then substring match, then default).

  The lemmas above are the claim where it holds: the order of selection
  (\<open>getModelPricing_exact\<close>, \<open>getModelPricing_partial\<close>,
  \<open>getModelPricing_default\<close>) and the formula (\<open>calculateCost_formula\<close>).
  It fails for the names a plain object inherits.  The identifier
  \<open>constructor\<close> has no slash, is no key of the table and neither contains a
  key nor is contained in one; yet \<open>MODEL_PRICING[baseModel]\<close> finds
  \<open>Object.prototype.constructor\<close>, a function and so truthy, and
  \<open>getModelPricing\<close> returns it in place of the default rates.  It has no
  rates, and the cost computed from it is \<open>NaN\<close>.
\<close>

theorem C8_inherited_member_is_returned:
  "baseModel ''constructor'' = ''constructor'' \<and>
   map_of MODEL_PRICING ''constructor'' = None \<and>
   partial_match ''constructor'' MODEL_PRICING = None \<and>
   getModelPricing ''constructor'' = InheritedMember ''constructor'' \<and>
   getModelPricing ''constructor'' \<noteq> PricingRecord DEFAULT_PRICING \<and>
   calculateCost \<lparr>prompt_tokens = 2000, completion_tokens = 1000, total_tokens = 3000\<rparr>
     ''constructor'' = None"
proof -
  have b: "baseModel ''constructor'' = ''constructor''"
    by (simp add: baseModel_def)
  have m: "map_of MODEL_PRICING ''constructor'' = None"
    by (simp add: MODEL_PRICING_def)
  have p: "partial_match ''constructor'' MODEL_PRICING = None"
    by (simp add: MODEL_PRICING_def)
  have g: "getModelPricing ''constructor'' = InheritedMember ''constructor''"
    by (simp add: getModelPricing_def b MODEL_PRICING_get_def m Object_prototype_members_def)
  have c: "calculateCost \<lparr>prompt_tokens = 2000, completion_tokens = 1000, total_tokens = 3000\<rparr>
     ''constructor'' = None"
    by (simp add: calculateCost_def g)
  show ?thesis using b m p g c by simp
qed

subsection \<open>Token estimates\<close>

lemma ceil_div4: "nat \<lceil>real n / 4\<rceil> = (n + 3) div 4"
proof -
  have "\<lceil>real n / 4\<rceil> = \<lceil>(of_int (int n) :: real) / of_int 4\<rceil>" by simp
  also have "\<dots> = - ((- int n) div 4)" by (simp only: ceiling_divide_eq_div)
  also have "\<dots> = (int n + 3) div 4" by presburger
  finally show ?thesis by (simp add: nat_div_distrib nat_add_distrib)
qed

lemma estimateTokens_div: "estimateTokens text = (length text + 3) div 4"
  by (simp add: estimateTokens_def ceil_div4)

lemma completionTokens_div: "completionTokens emitted = (length emitted + 3) div 4"
  by (simp add: completionTokens_def ceil_div4)

lemma length_number_toString_pos: "0 < length (number_toString n)"
  by (induction n rule: number_toString.induct) (simp split: if_splits)

lemma length_number_toString_le4: "n < 10000 \<Longrightarrow> length (number_toString n) \<le> 4"
proof -
  assume h: "n < 10000"
  have a: "\<And>m. m < 10 \<Longrightarrow> length (number_toString m) = 1" by simp
  have b: "\<And>m. m < 100 \<Longrightarrow> length (number_toString m) \<le> 2"
    using a by (subst number_toString.simps) (auto simp: less_mult_imp_div_less)
  have c: "\<And>m. m < 1000 \<Longrightarrow> length (number_toString m) \<le> 3"
  proof -
    fix m :: nat assume "m < 1000"
    then have "m div 10 < 100" by simp
    from b[OF this] show "length (number_toString m) \<le> 3"
      by (subst number_toString.simps) auto
  qed
  have "n div 10 < 1000" using h by simp
  from c[OF this] show ?thesis
    by (subst number_toString.simps) auto
qed

text \<open>
  Every request with fewer than 10000 characters of content is estimated at
  one prompt token: the estimate is taken of the decimal numeral of the
  character count, not of the text.
\<close>

lemma estimatePromptTokens_small:
  "totalLength messages < 10000 \<Longrightarrow> estimatePromptTokens messages = 1"
  using length_number_toString_le4[of "totalLength messages"]
    length_number_toString_pos[of "totalLength messages"]
  by (simp add: estimatePromptTokens_def estimateTokens_div)

text \<open>
  Claim C2.  The claim: for messages with \<open>N\<close> characters of string or
  text-part content in total, the prompt-token estimate of the streaming path
  is \<open>ceil(N / 4)\<close>, and the completion-token estimate is \<open>ceil(M / 4)\<close> for
  \<open>M\<close> characters of emitted delta content.

  The completion half holds (\<open>completionTokens_def\<close>).  The prompt half does
  not: \<open>estimatePromptTokens\<close> passes \<open>totalLength.toString()\<close> to
  \<open>estimateTokens\<close>, which then counts the digits of \<open>N\<close>.  For the single
  message \<open>hello world!\<close>, \<open>N\<close> is 12 and \<open>ceil(12 / 4)\<close> is 3, which is what
  \<open>estimateTokens\<close> gives for the text itself; the prompt estimate is
  \<open>ceil(2 / 4) = 1\<close>.
\<close>

theorem C2_prompt_estimate_counts_digits:
  "totalLength [\<lparr>role = ''user'', content = ContentString ''hello world!''\<rparr>] = 12 \<and>
   estimateTokens ''hello world!'' = 3 \<and>
   estimatePromptTokens [\<lparr>role = ''user'', content = ContentString ''hello world!''\<rparr>] = 1"
  by (simp add: estimatePromptTokens_def estimateTokens_div totalLength_def)

section \<open>Properties: services/modelRegistryService.ts\<close>

subsection \<open>The refresh\<close>

lemma refreshModels_count:
  "requestCount (openrouterService (snd (refreshModels e r))) = requestCount (openrouterService r) + 1"
  by (cases "upstream e") (simp_all add: refreshModels_def OpenRouterService_getModels_def)

lemma refreshModels_failure:
  "upstream e = Inl err \<Longrightarrow>
   refreshModels e r =
     (Inl err, r\<lparr>openrouterService := (openrouterService r)\<lparr>requestCount := requestCount (openrouterService r) + 1\<rparr>\<rparr>)"
  by (simp add: refreshModels_def OpenRouterService_getModels_def)

lemma refreshModels_success:
  "upstream e = Inr ms \<Longrightarrow>
   refreshModels e r =
     (Inr (), r\<lparr>models := fill_models ms, lastUpdated := fetched_at e,
               openrouterService := (openrouterService r)\<lparr>requestCount := requestCount (openrouterService r) + 1\<rparr>\<rparr>)"
  by (simp add: refreshModels_def OpenRouterService_getModels_def)

lemma refreshModelsIfNeeded_fresh:
  "\<not> needs_refresh (now e) r \<Longrightarrow> refreshModelsIfNeeded e r = (Inr (), r)"
  by (simp add: refreshModelsIfNeeded_def)

lemma refreshModelsIfNeeded_stale:
  "needs_refresh (now e) r \<Longrightarrow> refreshModelsIfNeeded e r = refreshModels e r"
  by (simp add: refreshModelsIfNeeded_def)

lemma refreshModelsIfNeeded_count:
  "requestCount (openrouterService (snd (refreshModelsIfNeeded e r))) =
     requestCount (openrouterService r) + (if needs_refresh (now e) r then 1 else 0)"
  by (simp add: refreshModelsIfNeeded_def refreshModels_count)

text \<open>The freshness test, spelled out: empty, or refreshed more than 300000 ms ago.\<close>

lemma needs_refresh_iff:
  "needs_refresh t r \<longleftrightarrow> models r = [] \<or> t - lastUpdated r > 300000"
  by (simp add: needs_refresh_def cacheTimeout_def)

subsection \<open>A read leaves the registry as its refresh left it\<close>

lemma getModels_state: "snd (getModels e r) = snd (refreshModelsIfNeeded e r)"
  by (simp add: getModels_def split: prod.splits sum.splits)

lemma getModel_state: "snd (getModel e modelId r) = snd (refreshModelsIfNeeded e r)"
  by (simp add: getModel_def split: prod.splits sum.splits option.splits)

lemma validateModel_state: "snd (validateModel e modelId r) = snd (refreshModelsIfNeeded e r)"
  using getModel_state[of e modelId r]
  by (auto simp add: validateModel_def split: prod.splits sum.splits)

lemma searchModels_state:
  "snd (searchModels toLowerCase e query r) = snd (refreshModelsIfNeeded e r)"
  using getModels_state[of e r]
  by (auto simp add: searchModels_def Let_def split: prod.splits sum.splits)

lemma getModelsByProvider_state:
  "snd (getModelsByProvider e provider r) = snd (refreshModelsIfNeeded e r)"
  using getModels_state[of e r]
  by (auto simp add: getModelsByProvider_def split: prod.splits sum.splits)

lemma getTopModels_state: "snd (getTopModels e limit r) = snd (refreshModelsIfNeeded e r)"
  using getModels_state[of e r]
  by (auto simp add: getTopModels_def split: prod.splits sum.splits)

lemma getSupportedParameters_state:
  "snd (getSupportedParameters e modelId r) = snd (refreshModelsIfNeeded e r)"
  using getModel_state[of e modelId r]
  by (auto simp add: getSupportedParameters_def split: prod.splits sum.splits option.splits)

lemma registry_getModelPricing_state:
  "snd (registry_getModelPricing e modelId r) = snd (refreshModelsIfNeeded e r)"
  using getModel_state[of e modelId r]
  by (auto simp add: registry_getModelPricing_def split: prod.splits sum.splits option.splits)

lemma getModelContextLength_state:
  "snd (getModelContextLength e modelId r) = snd (refreshModelsIfNeeded e r)"
  using getModel_state[of e modelId r]
  by (auto simp add: getModelContextLength_def split: prod.splits sum.splits option.splits)

lemma isModelModerated_state:
  "snd (isModelModerated e modelId r) = snd (refreshModelsIfNeeded e r)"
  using getModel_state[of e modelId r]
  by (auto simp add: isModelModerated_def split: prod.splits sum.splits option.splits)

subsection \<open>The answer comes from the catalog the refresh left\<close>

lemma getModels_answer:
  "refreshModelsIfNeeded e r = (Inr u, r') \<Longrightarrow>
   getModels e r = (map_throwing transformModel (map snd (models r')), r')"
  by (simp add: getModels_def)

lemma getModel_absent:
  "refreshModelsIfNeeded e r = (Inr u, r') \<Longrightarrow> map_of (models r') modelId = None \<Longrightarrow>
   getModel e modelId r = (Inr None, r')"
  by (simp add: getModel_def)

lemma getModel_error:
  "refreshModelsIfNeeded e r = (Inl err, r') \<Longrightarrow> getModel e modelId r = (Inl err, r')"
  by (simp add: getModel_def)

lemma getModels_error:
  "refreshModelsIfNeeded e r = (Inl err, r') \<Longrightarrow> getModels e r = (Inl err, r')"
  by (simp add: getModels_def)

text \<open>
  With the refresh over, each read computes its answer from the catalog the
  registry then holds.
\<close>

lemma reads_after_refresh:
  assumes "refreshModelsIfNeeded e r = (Inr u, r')"
  shows "getModels e r = (map_throwing transformModel (map snd (models r')), r')"
    and "getModel e modelId r =
           ((case map_of (models r') modelId of
               None \<Rightarrow> Inr None
             | Some m \<Rightarrow> (case transformModel m of Inl err \<Rightarrow> Inl err | Inr i \<Rightarrow> Inr (Some i))),
            r')"
    and "validateModel e modelId r =
           ((case map_of (models r') modelId of
               None \<Rightarrow> Inr False
             | Some m \<Rightarrow> (case transformModel m of Inl err \<Rightarrow> Inl err | Inr i \<Rightarrow> Inr True)),
            r')"
    and "searchModels toLowerCase e query r =
           ((case map_throwing transformModel (map snd (models r')) of
               Inl err \<Rightarrow> Inl err
             | Inr ms \<Rightarrow>
                 Inr (filter (\<lambda>model.
                        includes_str (toLowerCase (info_id model)) (toLowerCase query) \<or>
                        includes_str (toLowerCase (info_name model)) (toLowerCase query) \<or>
                        (case info_description model of
                           None \<Rightarrow> False
                         | Some d \<Rightarrow> d \<noteq> [] \<and>
                             includes_str (toLowerCase d) (toLowerCase query))) ms)),
            r')"
    and "getModelsByProvider e provider r =
           ((case map_throwing transformModel (map snd (models r')) of
               Inl err \<Rightarrow> Inl err
             | Inr ms \<Rightarrow>
                 Inr (filter (\<lambda>model. getProviderFromModelId (info_id model) = provider) ms)),
            r')"
    and "getTopModels e limit r =
           ((case map_throwing transformModel (map snd (models r')) of
               Inl err \<Rightarrow> Inl err
             | Inr ms \<Rightarrow>
                 Inr (slice0 (case limit of None \<Rightarrow> 10 | Some l \<Rightarrow> l)
                        (sort_key (\<lambda>m. - info_context_length m) ms))),
            r')"
proof -
  show g: "getModels e r = (map_throwing transformModel (map snd (models r')), r')"
    using assms by (simp add: getModels_def)
  show gm: "getModel e modelId r =
           ((case map_of (models r') modelId of
               None \<Rightarrow> Inr None
             | Some m \<Rightarrow> (case transformModel m of Inl err \<Rightarrow> Inl err | Inr i \<Rightarrow> Inr (Some i))),
            r')"
    using assms by (simp add: getModel_def split: option.splits sum.splits)
  show "validateModel e modelId r =
           ((case map_of (models r') modelId of
               None \<Rightarrow> Inr False
             | Some m \<Rightarrow> (case transformModel m of Inl err \<Rightarrow> Inl err | Inr i \<Rightarrow> Inr True)),
            r')"
    by (simp add: validateModel_def gm split: option.splits sum.splits)
  show "searchModels toLowerCase e query r =
           ((case map_throwing transformModel (map snd (models r')) of
               Inl err \<Rightarrow> Inl err
             | Inr ms \<Rightarrow>
                 Inr (filter (\<lambda>model.
                        includes_str (toLowerCase (info_id model)) (toLowerCase query) \<or>
                        includes_str (toLowerCase (info_name model)) (toLowerCase query) \<or>
                        (case info_description model of
                           None \<Rightarrow> False
                         | Some d \<Rightarrow> d \<noteq> [] \<and>
                             includes_str (toLowerCase d) (toLowerCase query))) ms)),
            r')"
    by (simp add: searchModels_def g Let_def split: sum.splits)
  show "getModelsByProvider e provider r =
           ((case map_throwing transformModel (map snd (models r')) of
               Inl err \<Rightarrow> Inl err
             | Inr ms \<Rightarrow>
                 Inr (filter (\<lambda>model. getProviderFromModelId (info_id model) = provider) ms)),
            r')"
    by (simp add: getModelsByProvider_def g split: sum.splits)
  show "getTopModels e limit r =
           ((case map_throwing transformModel (map snd (models r')) of
               Inl err \<Rightarrow> Inl err
             | Inr ms \<Rightarrow>
                 Inr (slice0 (case limit of None \<Rightarrow> 10 | Some l \<Rightarrow> l)
                        (sort_key (\<lambda>m. - info_context_length m) ms))),
            r')"
    by (simp add: getTopModels_def g split: sum.splits)
qed

text \<open>A refresh that fails ends every read with its error.\<close>

lemma reads_after_failed_refresh:
  assumes "refreshModelsIfNeeded e r = (Inl err, r')"
  shows "getModels e r = (Inl err, r')"
    and "getModel e modelId r = (Inl err, r')"
    and "validateModel e modelId r = (Inl err, r')"
    and "searchModels toLowerCase e query r = (Inl err, r')"
    and "getModelsByProvider e provider r = (Inl err, r')"
    and "getTopModels e limit r = (Inl err, r')"
  using assms
  by (simp_all add: getModels_def getModel_def validateModel_def searchModels_def
      getModelsByProvider_def getTopModels_def)

text \<open>
  Claim C5.  For each of the registry reads \<open>getModels\<close>, \<open>getModel\<close>,
  \<open>validateModel\<close>, \<open>searchModels\<close>, \<open>getModelsByProvider\<close> and
  \<open>getTopModels\<close>: if the catalog is empty or its last refresh is more than
  5 minutes old, exactly one upstream catalog fetch is made before the read
  answers; otherwise the read answers from the snapshot in memory with no
  fetch.

  The theorem gives, for each read, the request count (one more exactly when
  the catalog is empty or stale, whatever the fetch returns), and the whole
  result in each case.  Fresh: the answer is computed from the snapshot
  \<open>models r\<close> and the registry is left as it was.  Stale or empty, fetch
  answered with \<open>ms\<close>: the answer is computed from the fetched catalog
  \<open>fill_models ms\<close>, which the registry now holds with the timestamp of the
  fetch and one more request counted.  Stale or empty, fetch failed: the
  read ends with the fetch's error, one more request counted.
\<close>

theorem C5_reads_fetch_once_when_stale:
  "requestCount (openrouterService (snd (getModels e r))) =
     requestCount (openrouterService r) + (if needs_refresh (now e) r then 1 else 0) \<and>
   requestCount (openrouterService (snd (getModel e modelId r))) =
     requestCount (openrouterService r) + (if needs_refresh (now e) r then 1 else 0) \<and>
   requestCount (openrouterService (snd (validateModel e modelId r))) =
     requestCount (openrouterService r) + (if needs_refresh (now e) r then 1 else 0) \<and>
   requestCount (openrouterService (snd (searchModels toLowerCase e query r))) =
     requestCount (openrouterService r) + (if needs_refresh (now e) r then 1 else 0) \<and>
   requestCount (openrouterService (snd (getModelsByProvider e provider r))) =
     requestCount (openrouterService r) + (if needs_refresh (now e) r then 1 else 0) \<and>
   requestCount (openrouterService (snd (getTopModels e limit r))) =
     requestCount (openrouterService r) + (if needs_refresh (now e) r then 1 else 0) \<and>
   (needs_refresh (now e) r \<longleftrightarrow> models r = [] \<or> now e - lastUpdated r > 5 * 60 * 1000) \<and>
   (\<forall>c r'.
      (\<not> needs_refresh (now e) r \<and> c = models r \<and> r' = r) \<or>
      (needs_refresh (now e) r \<and> (\<exists>ms. upstream e = Inr ms \<and> c = fill_models ms) \<and>
       r' = r\<lparr>models := c, lastUpdated := fetched_at e,
               openrouterService := (openrouterService r)
                 \<lparr>requestCount := requestCount (openrouterService r) + 1\<rparr>\<rparr>) \<longrightarrow>
      getModels e r = (map_throwing transformModel (map snd c), r') \<and>
      getModel e modelId r =
        ((case map_of c modelId of
            None \<Rightarrow> Inr None
          | Some m \<Rightarrow> (case transformModel m of Inl err \<Rightarrow> Inl err | Inr i \<Rightarrow> Inr (Some i))),
         r') \<and>
      validateModel e modelId r =
        ((case map_of c modelId of
            None \<Rightarrow> Inr False
          | Some m \<Rightarrow> (case transformModel m of Inl err \<Rightarrow> Inl err | Inr i \<Rightarrow> Inr True)),
         r') \<and>
      searchModels toLowerCase e query r =
        ((case map_throwing transformModel (map snd c) of
            Inl err \<Rightarrow> Inl err
          | Inr ms \<Rightarrow>
              Inr (filter (\<lambda>model.
                     includes_str (toLowerCase (info_id model)) (toLowerCase query) \<or>
                     includes_str (toLowerCase (info_name model)) (toLowerCase query) \<or>
                     (case info_description model of
                        None \<Rightarrow> False
                      | Some d \<Rightarrow> d \<noteq> [] \<and>
                          includes_str (toLowerCase d) (toLowerCase query))) ms)),
         r') \<and>
      getModelsByProvider e provider r =
        ((case map_throwing transformModel (map snd c) of
            Inl err \<Rightarrow> Inl err
          | Inr ms \<Rightarrow>
              Inr (filter (\<lambda>model. getProviderFromModelId (info_id model) = provider) ms)),
         r') \<and>
      getTopModels e limit r =
        ((case map_throwing transformModel (map snd c) of
            Inl err \<Rightarrow> Inl err
          | Inr ms \<Rightarrow>
              Inr (slice0 (case limit of None \<Rightarrow> 10 | Some l \<Rightarrow> l)
                     (sort_key (\<lambda>m. - info_context_length m) ms))),
         r')) \<and>
   (\<forall>err r'.
      needs_refresh (now e) r \<and> upstream e = Inl err \<and>
      r' = r\<lparr>openrouterService := (openrouterService r)
                \<lparr>requestCount := requestCount (openrouterService r) + 1\<rparr>\<rparr> \<longrightarrow>
      getModels e r = (Inl err, r') \<and> getModel e modelId r = (Inl err, r') \<and>
      validateModel e modelId r = (Inl err, r') \<and>
      searchModels toLowerCase e query r = (Inl err, r') \<and>
      getModelsByProvider e provider r = (Inl err, r') \<and>
      getTopModels e limit r = (Inl err, r'))"
proof -
  have counts:
    "requestCount (openrouterService (snd (refreshModelsIfNeeded e r))) =
       requestCount (openrouterService r) + (if needs_refresh (now e) r then 1 else 0)"
    by (rule refreshModelsIfNeeded_count)
  have ok: "refreshModelsIfNeeded e r = (Inr (), r') \<and> models r' = c"
    if "(\<not> needs_refresh (now e) r \<and> c = models r \<and> r' = r) \<or>
        (needs_refresh (now e) r \<and> (\<exists>ms. upstream e = Inr ms \<and> c = fill_models ms) \<and>
         r' = r\<lparr>models := c, lastUpdated := fetched_at e,
                 openrouterService := (openrouterService r)
                   \<lparr>requestCount := requestCount (openrouterService r) + 1\<rparr>\<rparr>)" for c r'
    using that
    by (auto simp add: refreshModelsIfNeeded_fresh refreshModelsIfNeeded_stale refreshModels_success)
  have bad: "refreshModelsIfNeeded e r = (Inl err, r')"
    if "needs_refresh (now e) r \<and> upstream e = Inl err \<and>
        r' = r\<lparr>openrouterService := (openrouterService r)
                  \<lparr>requestCount := requestCount (openrouterService r) + 1\<rparr>\<rparr>" for err r'
    using that by (simp add: refreshModelsIfNeeded_stale refreshModels_failure)
  show ?thesis
  proof (intro conjI allI impI)
    fix c r'
    assume h: "(\<not> needs_refresh (now e) r \<and> c = models r \<and> r' = r) \<or>
        (needs_refresh (now e) r \<and> (\<exists>ms. upstream e = Inr ms \<and> c = fill_models ms) \<and>
         r' = r\<lparr>models := c, lastUpdated := fetched_at e,
                 openrouterService := (openrouterService r)
                   \<lparr>requestCount := requestCount (openrouterService r) + 1\<rparr>\<rparr>)"
    note o = ok[OF h]
    have rr: "refreshModelsIfNeeded e r = (Inr (), r')" and c: "models r' = c"
      using o by simp_all
    show "getModels e r = (map_throwing transformModel (map snd c), r')"
      using reads_after_refresh(1)[OF rr] c by simp
    show "getModel e modelId r =
        ((case map_of c modelId of
            None \<Rightarrow> Inr None
          | Some m \<Rightarrow> (case transformModel m of Inl err \<Rightarrow> Inl err | Inr i \<Rightarrow> Inr (Some i))),
         r')"
      using reads_after_refresh(2)[OF rr] c by simp
    show "validateModel e modelId r =
        ((case map_of c modelId of
            None \<Rightarrow> Inr False
          | Some m \<Rightarrow> (case transformModel m of Inl err \<Rightarrow> Inl err | Inr i \<Rightarrow> Inr True)),
         r')"
      using reads_after_refresh(3)[OF rr] c by simp
    show "searchModels toLowerCase e query r =
        ((case map_throwing transformModel (map snd c) of
            Inl err \<Rightarrow> Inl err
          | Inr ms \<Rightarrow>
              Inr (filter (\<lambda>model.
                     includes_str (toLowerCase (info_id model)) (toLowerCase query) \<or>
                     includes_str (toLowerCase (info_name model)) (toLowerCase query) \<or>
                     (case info_description model of
                        None \<Rightarrow> False
                      | Some d \<Rightarrow> d \<noteq> [] \<and>
                          includes_str (toLowerCase d) (toLowerCase query))) ms)),
         r')"
      using reads_after_refresh(4)[OF rr] c by simp
    show "getModelsByProvider e provider r =
        ((case map_throwing transformModel (map snd c) of
            Inl err \<Rightarrow> Inl err
          | Inr ms \<Rightarrow>
              Inr (filter (\<lambda>model. getProviderFromModelId (info_id model) = provider) ms)),
         r')"
      using reads_after_refresh(5)[OF rr] c by simp
    show "getTopModels e limit r =
        ((case map_throwing transformModel (map snd c) of
            Inl err \<Rightarrow> Inl err
          | Inr ms \<Rightarrow>
              Inr (slice0 (case limit of None \<Rightarrow> 10 | Some l \<Rightarrow> l)
                     (sort_key (\<lambda>m. - info_context_length m) ms))),
         r')"
      using reads_after_refresh(6)[OF rr] c by simp
  next
    fix err r'
    assume h: "needs_refresh (now e) r \<and> upstream e = Inl err \<and>
        r' = r\<lparr>openrouterService := (openrouterService r)
                  \<lparr>requestCount := requestCount (openrouterService r) + 1\<rparr>\<rparr>"
    note b = bad[OF h]
    show "getModels e r = (Inl err, r')" by (rule reads_after_failed_refresh(1)[OF b])
    show "getModel e modelId r = (Inl err, r')" by (rule reads_after_failed_refresh(2)[OF b])
    show "validateModel e modelId r = (Inl err, r')" by (rule reads_after_failed_refresh(3)[OF b])
    show "searchModels toLowerCase e query r = (Inl err, r')"
      by (rule reads_after_failed_refresh(4)[OF b])
    show "getModelsByProvider e provider r = (Inl err, r')"
      by (rule reads_after_failed_refresh(5)[OF b])
    show "getTopModels e limit r = (Inl err, r')" by (rule reads_after_failed_refresh(6)[OF b])
  qed (simp_all add: getModels_state getModel_state validateModel_state searchModels_state
      getModelsByProvider_state getTopModels_state counts needs_refresh_iff)
qed

lemma example_registry_models:
  "models example_registry =
     [(''openai/gpt-4'', example_model ''openai/gpt-4'' 8192),
      (''mistral/tiny'', example_model ''mistral/tiny'' 32000)]"
  by (simp add: example_registry_def fill_models_def example_catalog_def example_model_def)

lemma transformModel_example:
  "transformModel (example_model ''openai/gpt-4'' 8192) =
     Inr \<lparr>info_id = ''openai/gpt-4'', info_name = ''openai/gpt-4'', info_description = None,
          info_context_length = 8192,
          info_pricing = \<lparr>prompt = ''0.000001'', completion = ''0.000002''\<rparr>,
          supported_parameters =
            baseParameters @ [''logit_bias'', ''logprobs'', ''top_logprobs'', ''response_format'',
                              ''seed'', ''tools'', ''tool_choice''],
          info_is_moderated = True, info_max_completion_tokens = None\<rparr>"
  by (simp add: transformModel_def getSupportedParametersForModel_def
      getProviderSpecificParameters_def getProviderFromModelId_def providerParameters_def
      example_model_def truthy_str_def)

lemma transformModel_example_new:
  "transformModel (example_model ''acme/new'' 4096) =
     Inr \<lparr>info_id = ''acme/new'', info_name = ''acme/new'', info_description = None,
          info_context_length = 4096,
          info_pricing = \<lparr>prompt = ''0.000001'', completion = ''0.000002''\<rparr>,
          supported_parameters = baseParameters,
          info_is_moderated = True, info_max_completion_tokens = None\<rparr>"
  by (simp add: transformModel_def getSupportedParametersForModel_def
      getProviderSpecificParameters_def getProviderFromModelId_def providerParameters_def
      example_model_def truthy_str_def Object_prototype_members_def)

text \<open>
  The example registry was refreshed at 1000000.  A read at 1200000 answers
  from the snapshot: \<open>openai/gpt-4\<close> is there, \<open>acme/new\<close> is not.  A read at
  1400000 fetches first, and the upstream now lists \<open>acme/new\<close> alone: the
  answers are the other way round, and the registry holds the fetched
  catalog.
\<close>

theorem C5_reads_fetch_once_when_stale_witness:
  "\<not> needs_refresh 1200000 example_registry \<and>
   validateModel \<lparr>now = 1200000, upstream = Inr [example_model ''acme/new'' 4096],
                  fetched_at = 1200200\<rparr> ''openai/gpt-4'' example_registry
     = (Inr True, example_registry) \<and>
   validateModel \<lparr>now = 1200000, upstream = Inr [example_model ''acme/new'' 4096],
                  fetched_at = 1200200\<rparr> ''acme/new'' example_registry
     = (Inr False, example_registry) \<and>
   needs_refresh 1400000 example_registry \<and>
   validateModel \<lparr>now = 1400000, upstream = Inr [example_model ''acme/new'' 4096],
                  fetched_at = 1400200\<rparr> ''openai/gpt-4'' example_registry
     = (Inr False,
        \<lparr>models = [(''acme/new'', example_model ''acme/new'' 4096)], lastUpdated = 1400200,
         openrouterService = \<lparr>requestCount = 2\<rparr>\<rparr>) \<and>
   validateModel \<lparr>now = 1400000, upstream = Inr [example_model ''acme/new'' 4096],
                  fetched_at = 1400200\<rparr> ''acme/new'' example_registry
     = (Inr True,
        \<lparr>models = [(''acme/new'', example_model ''acme/new'' 4096)], lastUpdated = 1400200,
         openrouterService = \<lparr>requestCount = 2\<rparr>\<rparr>)"
proof -
  let ?e1 = "\<lparr>now = 1200000, upstream = Inr [example_model ''acme/new'' 4096],
              fetched_at = 1200200\<rparr>"
  let ?e2 = "\<lparr>now = 1400000, upstream = Inr [example_model ''acme/new'' 4096],
              fetched_at = 1400200\<rparr>"
  let ?c = "[(''acme/new'', example_model ''acme/new'' 4096)]"
  let ?r' = "\<lparr>models = ?c, lastUpdated = 1400200, openrouterService = \<lparr>requestCount = 2\<rparr>\<rparr>"
  have fresh: "\<not> needs_refresh 1200000 example_registry"
    by (simp add: needs_refresh_iff example_registry_models) (simp add: example_registry_def)
  have stale: "needs_refresh 1400000 example_registry"
    by (simp add: needs_refresh_iff example_registry_def)
  have fm: "fill_models [example_model ''acme/new'' 4096] = ?c"
    by (simp add: fill_models_def example_model_def)
  have r': "?r' = example_registry\<lparr>models := ?c, lastUpdated := fetched_at ?e2,
               openrouterService := (openrouterService example_registry)
                 \<lparr>requestCount := requestCount (openrouterService example_registry) + 1\<rparr>\<rparr>"
    by (simp add: example_registry_def)
  have h1: "(\<not> needs_refresh (now ?e1) example_registry \<and>
             models example_registry = models example_registry \<and> example_registry = example_registry)"
    using fresh by simp
  have h2: "needs_refresh (now ?e2) example_registry \<and>
            (\<exists>ms. upstream ?e2 = Inr ms \<and> ?c = fill_models ms) \<and>
            ?r' = example_registry\<lparr>models := ?c, lastUpdated := fetched_at ?e2,
               openrouterService := (openrouterService example_registry)
                 \<lparr>requestCount := requestCount (openrouterService example_registry) + 1\<rparr>\<rparr>"
    using stale fm r' by simp
  note t1 = C5_reads_fetch_once_when_stale[of ?e1 example_registry "''openai/gpt-4''",
      THEN conjunct2, THEN conjunct2, THEN conjunct2, THEN conjunct2, THEN conjunct2,
      THEN conjunct2, THEN conjunct2, THEN conjunct1, rule_format, OF disjI1, OF h1,
      THEN conjunct2, THEN conjunct2, THEN conjunct1]
  note t1' = C5_reads_fetch_once_when_stale[of ?e1 example_registry "''acme/new''",
      THEN conjunct2, THEN conjunct2, THEN conjunct2, THEN conjunct2, THEN conjunct2,
      THEN conjunct2, THEN conjunct2, THEN conjunct1, rule_format, OF disjI1, OF h1,
      THEN conjunct2, THEN conjunct2, THEN conjunct1]
  note t2 = C5_reads_fetch_once_when_stale[of ?e2 example_registry "''openai/gpt-4''",
      THEN conjunct2, THEN conjunct2, THEN conjunct2, THEN conjunct2, THEN conjunct2,
      THEN conjunct2, THEN conjunct2, THEN conjunct1, rule_format, OF disjI2, OF h2,
      THEN conjunct2, THEN conjunct2, THEN conjunct1]
  note t2' = C5_reads_fetch_once_when_stale[of ?e2 example_registry "''acme/new''",
      THEN conjunct2, THEN conjunct2, THEN conjunct2, THEN conjunct2, THEN conjunct2,
      THEN conjunct2, THEN conjunct2, THEN conjunct1, rule_format, OF disjI2, OF h2,
      THEN conjunct2, THEN conjunct2, THEN conjunct1]
  have a1: "validateModel ?e1 ''openai/gpt-4'' example_registry = (Inr True, example_registry)"
    using t1 by (simp add: example_registry_models transformModel_example)
  have a2: "validateModel ?e1 ''acme/new'' example_registry = (Inr False, example_registry)"
    using t1' by (simp add: example_registry_models)
  have b1: "validateModel ?e2 ''openai/gpt-4'' example_registry = (Inr False, ?r')"
    using t2 by simp
  have b2: "validateModel ?e2 ''acme/new'' example_registry = (Inr True, ?r')"
    using t2' by (simp add: transformModel_example_new)
  show ?thesis
    using fresh stale a1 a2 b1 b2 by blast
qed

text \<open>
  Claim C7.  If the upstream fetch of a catalog refresh fails while a
  non-empty snapshot exists, the error propagates to the caller and the
  catalog is unchanged: the model map holds the entries of the prior snapshot
  and the last-refreshed timestamp is not advanced.  This holds of
  \<open>refreshModels\<close> itself and of the reads that run it because the snapshot
  is stale.
\<close>

theorem C7_failed_refresh_keeps_snapshot:
  assumes "upstream e = Inl err" and "models r \<noteq> []"
  shows "fst (refreshModels e r) = Inl err \<and>
         models (snd (refreshModels e r)) = models r \<and>
         lastUpdated (snd (refreshModels e r)) = lastUpdated r \<and>
         (needs_refresh (now e) r \<longrightarrow>
            fst (getModels e r) = Inl err \<and> fst (getModel e modelId r) = Inl err \<and>
            fst (validateModel e modelId r) = Inl err \<and>
            models (snd (getModels e r)) = models r \<and>
            lastUpdated (snd (getModels e r)) = lastUpdated r \<and>
            models (snd (getModel e modelId r)) = models r \<and>
            lastUpdated (snd (getModel e modelId r)) = lastUpdated r)"
proof -
  have f: "refreshModels e r =
     (Inl err, r\<lparr>openrouterService := (openrouterService r)\<lparr>requestCount := requestCount (openrouterService r) + 1\<rparr>\<rparr>)"
    using assms(1) by (rule refreshModels_failure)
  have g: "needs_refresh (now e) r \<Longrightarrow> refreshModelsIfNeeded e r = refreshModels e r"
    by (rule refreshModelsIfNeeded_stale)
  show ?thesis
    using f g
    by (auto simp add: getModels_def getModel_def validateModel_def)
qed

text \<open>
  The example registry, stale at 1400000, with an upstream that answers 503.
\<close>

theorem C7_failed_refresh_keeps_snapshot_witness:
  "models example_registry \<noteq> [] \<and> needs_refresh 1400000 example_registry \<and>
   fst (getModel \<lparr>now = 1400000, upstream = Inl (RequestError 503 ''unavailable'' ''openrouter''),
                  fetched_at = 1400200\<rparr> ''openai/gpt-4'' example_registry)
     = Inl (RequestError 503 ''unavailable'' ''openrouter'') \<and>
   models (snd (getModel \<lparr>now = 1400000, upstream = Inl (RequestError 503 ''unavailable'' ''openrouter''),
                  fetched_at = 1400200\<rparr> ''openai/gpt-4'' example_registry))
     = models example_registry \<and>
   lastUpdated (snd (getModel \<lparr>now = 1400000, upstream = Inl (RequestError 503 ''unavailable'' ''openrouter''),
                  fetched_at = 1400200\<rparr> ''openai/gpt-4'' example_registry)) = 1000000"
proof -
  have stale: "needs_refresh 1400000 example_registry"
    by (simp add: needs_refresh_iff example_registry_def)
  have ne: "models example_registry \<noteq> []"
    by (simp add: example_registry_models)
  have l: "lastUpdated example_registry = 1000000"
    by (simp add: example_registry_def)
  show ?thesis
    using stale ne l
      C7_failed_refresh_keeps_snapshot
        [of "\<lparr>now = 1400000, upstream = Inl (RequestError 503 ''unavailable'' ''openrouter''),
              fetched_at = 1400200\<rparr>" "RequestError 503 ''unavailable'' ''openrouter''"
            example_registry "''openai/gpt-4''"]
    by simp
qed

lemma getSupportedParameters_absent:
  "refreshModelsIfNeeded e r = (Inr u, r') \<Longrightarrow> map_of (models r') modelId = None \<Longrightarrow>
   getSupportedParameters e modelId r = (Inr [], r')"
  by (simp add: getSupportedParameters_def getModel_absent)

text \<open>
  Claim C10.  The claim: for every model identifier absent from the catalog
  the metadata reads return defaults rather than failing
  (\<open>getModelContextLength\<close> 0, \<open>isModelModerated\<close> false,
  \<open>getSupportedParameters\<close> the empty list, \<open>getModelPricing\<close> null), and
  none of them raises an error or triggers an upstream call beyond the
  freshness-driven refresh.

  The reads do raise when that refresh fails.  The example registry is stale
  at 1400000 and does not hold \<open>acme/none\<close>; with an upstream that answers
  503, each of the four reads ends with that error in place of its default.
\<close>

theorem C10_failed_refresh_raises:
  "needs_refresh 1400000 example_registry \<and>
   map_of (models example_registry) ''acme/none'' = None \<and>
   fst (getModelContextLength
          \<lparr>now = 1400000, upstream = Inl (RequestError 503 ''unavailable'' ''openrouter''),
           fetched_at = 1400200\<rparr> ''acme/none'' example_registry)
     = Inl (RequestError 503 ''unavailable'' ''openrouter'') \<and>
   fst (isModelModerated
          \<lparr>now = 1400000, upstream = Inl (RequestError 503 ''unavailable'' ''openrouter''),
           fetched_at = 1400200\<rparr> ''acme/none'' example_registry)
     = Inl (RequestError 503 ''unavailable'' ''openrouter'') \<and>
   fst (getSupportedParameters
          \<lparr>now = 1400000, upstream = Inl (RequestError 503 ''unavailable'' ''openrouter''),
           fetched_at = 1400200\<rparr> ''acme/none'' example_registry)
     = Inl (RequestError 503 ''unavailable'' ''openrouter'') \<and>
   fst (registry_getModelPricing
          \<lparr>now = 1400000, upstream = Inl (RequestError 503 ''unavailable'' ''openrouter''),
           fetched_at = 1400200\<rparr> ''acme/none'' example_registry)
     = Inl (RequestError 503 ''unavailable'' ''openrouter'')"
proof -
  let ?e = "\<lparr>now = 1400000, upstream = Inl (RequestError 503 ''unavailable'' ''openrouter''),
             fetched_at = 1400200\<rparr>"
  have stale: "needs_refresh 1400000 example_registry"
    by (simp add: needs_refresh_iff example_registry_def)
  have absent: "map_of (models example_registry) ''acme/none'' = None"
    by (simp add: example_registry_models)
  have "fst (refreshModelsIfNeeded ?e example_registry)
          = Inl (RequestError 503 ''unavailable'' ''openrouter'')"
    using stale by (simp add: refreshModelsIfNeeded_def refreshModels_failure)
  then obtain r' where "refreshModelsIfNeeded ?e example_registry
          = (Inl (RequestError 503 ''unavailable'' ''openrouter''), r')"
    by (metis prod.collapse)
  then have g: "getModel ?e ''acme/none'' example_registry
          = (Inl (RequestError 503 ''unavailable'' ''openrouter''), r')"
    by (rule getModel_error)
  show ?thesis
    using stale absent g
    by (simp add: getModelContextLength_def isModelModerated_def getSupportedParameters_def
        registry_getModelPricing_def)
qed

text \<open>
  Claim C10, as the code has it: for a model identifier absent from the
  catalog (the catalog as the freshness-driven refresh leaves it), the
  metadata reads return their defaults, 0, false, the empty list and null,
  unless that refresh fails; if it fails, each read ends with the refresh's
  error.  In both cases the registry is left as the refresh left it, so no
  read calls upstream beyond that refresh: the request count grows by one
  exactly when the refresh was due, and not at all on a fresh catalog.
\<close>

theorem C10_absent_model_reads_default:
  assumes "map_of (models (snd (refreshModelsIfNeeded e r))) modelId = None"
  shows "(\<not> needs_refresh (now e) r \<or> (\<exists>ms. upstream e = Inr ms) \<longrightarrow>
            getModelContextLength e modelId r = (Inr 0, snd (refreshModelsIfNeeded e r)) \<and>
            isModelModerated e modelId r = (Inr False, snd (refreshModelsIfNeeded e r)) \<and>
            getSupportedParameters e modelId r = (Inr [], snd (refreshModelsIfNeeded e r)) \<and>
            registry_getModelPricing e modelId r = (Inr None, snd (refreshModelsIfNeeded e r))) \<and>
         (\<forall>err. needs_refresh (now e) r \<and> upstream e = Inl err \<longrightarrow>
            getModelContextLength e modelId r = (Inl err, snd (refreshModelsIfNeeded e r)) \<and>
            isModelModerated e modelId r = (Inl err, snd (refreshModelsIfNeeded e r)) \<and>
            getSupportedParameters e modelId r = (Inl err, snd (refreshModelsIfNeeded e r)) \<and>
            registry_getModelPricing e modelId r = (Inl err, snd (refreshModelsIfNeeded e r))) \<and>
         (\<not> needs_refresh (now e) r \<longrightarrow> snd (refreshModelsIfNeeded e r) = r) \<and>
         requestCount (openrouterService (snd (getModelContextLength e modelId r))) =
           requestCount (openrouterService r) + (if needs_refresh (now e) r then 1 else 0) \<and>
         requestCount (openrouterService (snd (isModelModerated e modelId r))) =
           requestCount (openrouterService r) + (if needs_refresh (now e) r then 1 else 0) \<and>
         requestCount (openrouterService (snd (getSupportedParameters e modelId r))) =
           requestCount (openrouterService r) + (if needs_refresh (now e) r then 1 else 0) \<and>
         requestCount (openrouterService (snd (registry_getModelPricing e modelId r))) =
           requestCount (openrouterService r) + (if needs_refresh (now e) r then 1 else 0)"
proof -
  obtain res r' where rr: "refreshModelsIfNeeded e r = (res, r')"
    by (cases "refreshModelsIfNeeded e r")
  have absent: "map_of (models r') modelId = None"
    using assms rr by simp
  have gm: "getModel e modelId r = (case res of Inl err \<Rightarrow> (Inl err, r') | Inr u \<Rightarrow> (Inr None, r'))"
    using rr absent by (cases res) (simp_all add: getModel_def)
  have eqs:
    "getModelContextLength e modelId r = (case res of Inl err \<Rightarrow> (Inl err, r') | Inr u \<Rightarrow> (Inr 0, r'))"
    "isModelModerated e modelId r = (case res of Inl err \<Rightarrow> (Inl err, r') | Inr u \<Rightarrow> (Inr False, r'))"
    "getSupportedParameters e modelId r = (case res of Inl err \<Rightarrow> (Inl err, r') | Inr u \<Rightarrow> (Inr [], r'))"
    "registry_getModelPricing e modelId r = (case res of Inl err \<Rightarrow> (Inl err, r') | Inr u \<Rightarrow> (Inr None, r'))"
    using gm
    by (cases res; simp add: getModelContextLength_def isModelModerated_def
        getSupportedParameters_def registry_getModelPricing_def)+
  have good: "res = Inr ()" if h: "\<not> needs_refresh (now e) r \<or> (\<exists>ms. upstream e = Inr ms)"
  proof (cases "needs_refresh (now e) r")
    case False
    then show ?thesis using rr by (simp add: refreshModelsIfNeeded_fresh)
  next
    case True
    then obtain ms where "upstream e = Inr ms" using h by blast
    then show ?thesis
      using rr True by (simp add: refreshModelsIfNeeded_stale refreshModels_success)
  qed
  have bad: "res = Inl err" if "needs_refresh (now e) r \<and> upstream e = Inl err" for err
    using that rr by (simp add: refreshModelsIfNeeded_stale refreshModels_failure)
  have fresh: "\<not> needs_refresh (now e) r \<Longrightarrow> r' = r"
    using rr by (simp add: refreshModelsIfNeeded_fresh)
  have counts:
    "requestCount (openrouterService r') =
       requestCount (openrouterService r) + (if needs_refresh (now e) r then 1 else 0)"
    using refreshModelsIfNeeded_count[of e r] rr by simp
  show ?thesis
    unfolding getModelContextLength_state isModelModerated_state getSupportedParameters_state
      registry_getModelPricing_state
    using eqs good bad fresh counts rr
    by auto
qed

text \<open>
  An identifier the example registry does not hold: read while the catalog is
  fresh, read after a refresh that succeeds, and read after one that fails.
\<close>

theorem C10_absent_model_reads_default_witness:
  "getModelContextLength \<lparr>now = 1200000, upstream = Inr [], fetched_at = 1200200\<rparr>
      ''acme/none'' example_registry = (Inr 0, example_registry) \<and>
   getSupportedParameters \<lparr>now = 1200000, upstream = Inr [], fetched_at = 1200200\<rparr>
      ''acme/none'' example_registry = (Inr [], example_registry) \<and>
   needs_refresh 1400000 example_registry \<and>
   getModelContextLength \<lparr>now = 1400000, upstream = Inr example_catalog, fetched_at = 1400200\<rparr>
      ''acme/none'' example_registry
     = (Inr 0, example_registry\<lparr>lastUpdated := 1400200,
                                 openrouterService := \<lparr>requestCount = 2\<rparr>\<rparr>) \<and>
   isModelModerated \<lparr>now = 1400000, upstream = Inr example_catalog, fetched_at = 1400200\<rparr>
      ''acme/none'' example_registry
     = (Inr False, example_registry\<lparr>lastUpdated := 1400200,
                                     openrouterService := \<lparr>requestCount = 2\<rparr>\<rparr>) \<and>
   registry_getModelPricing
      \<lparr>now = 1400000, upstream = Inl (RequestError 503 ''unavailable'' ''openrouter''),
       fetched_at = 1400200\<rparr> ''acme/none'' example_registry
     = (Inl (RequestError 503 ''unavailable'' ''openrouter''),
        example_registry\<lparr>openrouterService := \<lparr>requestCount = 2\<rparr>\<rparr>)"
proof -
  let ?e1 = "\<lparr>now = 1200000, upstream = Inr [], fetched_at = 1200200\<rparr> :: env"
  let ?e2 = "\<lparr>now = 1400000, upstream = Inr example_catalog, fetched_at = 1400200\<rparr>"
  let ?e3 = "\<lparr>now = 1400000, upstream = Inl (RequestError 503 ''unavailable'' ''openrouter''),
              fetched_at = 1400200\<rparr> :: env"
  have fresh: "\<not> needs_refresh (now ?e1) example_registry"
    by (simp add: needs_refresh_iff example_registry_models) (simp add: example_registry_def)
  have stale: "needs_refresh 1400000 example_registry"
    by (simp add: needs_refresh_iff example_registry_def)
  have r1: "refreshModelsIfNeeded ?e1 example_registry = (Inr (), example_registry)"
    by (rule refreshModelsIfNeeded_fresh[OF fresh])
  have r2: "refreshModelsIfNeeded ?e2 example_registry
      = (Inr (), example_registry\<lparr>lastUpdated := 1400200,
                                   openrouterService := \<lparr>requestCount = 2\<rparr>\<rparr>)"
    using stale
    by (simp add: refreshModelsIfNeeded_def refreshModels_success) (simp add: example_registry_def)
  have r3: "refreshModelsIfNeeded ?e3 example_registry
      = (Inl (RequestError 503 ''unavailable'' ''openrouter''),
         example_registry\<lparr>openrouterService := \<lparr>requestCount = 2\<rparr>\<rparr>)"
    using stale
    by (simp add: refreshModelsIfNeeded_def refreshModels_failure) (simp add: example_registry_def)
  have a1: "map_of (models (snd (refreshModelsIfNeeded ?e1 example_registry))) ''acme/none'' = None"
    by (simp add: r1 example_registry_models)
  have a2: "map_of (models (snd (refreshModelsIfNeeded ?e2 example_registry))) ''acme/none'' = None"
    by (simp add: r2 example_registry_models)
  have a3: "map_of (models (snd (refreshModelsIfNeeded ?e3 example_registry))) ''acme/none'' = None"
    by (simp add: r3 example_registry_models)
  note t1 = C10_absent_model_reads_default[OF a1, THEN conjunct1, rule_format, OF disjI1, OF fresh]
  have s2: "\<exists>ms. upstream ?e2 = Inr ms" by simp
  note t2 = C10_absent_model_reads_default[OF a2, THEN conjunct1, rule_format, OF disjI2, OF s2]
  have s3: "needs_refresh (now ?e3) example_registry \<and>
            upstream ?e3 = Inl (RequestError 503 ''unavailable'' ''openrouter'')"
    using stale by simp
  note t3 = C10_absent_model_reads_default[OF a3, THEN conjunct2, THEN conjunct1, rule_format, OF s3]
  show ?thesis
    using stale t1 t2 t3 by (simp add: r1 r2 r3)
qed

subsection \<open>Readers that overlap\<close>

lemma ReaderArrives_needs_refresh:
  "needs_refresh t' (registry (registry_step s (ReaderArrives reader t))) = needs_refresh t' (registry s)"
  by (simp add: needs_refresh_def)

text \<open>
  One reader alone: its arrival followed by the answer to its request is
  \<open>refreshModelsIfNeeded\<close>, and nothing is left pending.
\<close>

lemma single_reader_is_refreshModelsIfNeeded:
  "needs_refresh (now e) r \<Longrightarrow>
   registry_run \<lparr>registry = r, pending = []\<rparr>
       [ReaderArrives reader (now e), AnswerArrives reader (upstream e) (fetched_at e)]
     = \<lparr>registry = snd (refreshModelsIfNeeded e r), pending = []\<rparr>"
  by (cases "upstream e")
     (simp_all add: registry_run_def refreshModelsIfNeeded_def refreshModels_def
        OpenRouterService_getModels_def)

lemma fresh_reader_sends_nothing:
  "\<not> needs_refresh t (registry s) \<Longrightarrow> registry_run s [ReaderArrives reader t] = s"
  by (simp add: registry_run_def)

text \<open>An answer for a reader that does not wait for one changes nothing.\<close>

lemma unrequested_answer_ignored:
  "reader \<notin> set (pending s) \<Longrightarrow> registry_step s (AnswerArrives reader answer t) = s"
  by simp

text \<open>
  Readers that arrive at an empty or stale catalog: each sends a request and
  waits; the catalog is as it was.
\<close>

lemma readers_arrive:
  "\<forall>a \<in> set arrivals. needs_refresh (snd a) (registry s) \<Longrightarrow>
   pending (foldl registry_step s (map (\<lambda>a. ReaderArrives (fst a) (snd a)) arrivals))
     = pending s @ map fst arrivals \<and>
   requestCount (openrouterService (registry
       (foldl registry_step s (map (\<lambda>a. ReaderArrives (fst a) (snd a)) arrivals))))
     = requestCount (openrouterService (registry s)) + length arrivals \<and>
   models (registry (foldl registry_step s (map (\<lambda>a. ReaderArrives (fst a) (snd a)) arrivals)))
     = models (registry s) \<and>
   lastUpdated (registry (foldl registry_step s (map (\<lambda>a. ReaderArrives (fst a) (snd a)) arrivals)))
     = lastUpdated (registry s)"
proof (induction arrivals arbitrary: s)
  case Nil
  then show ?case by simp
next
  case (Cons a arrivals)
  have stale: "needs_refresh (snd a) (registry s)" using Cons.prems by simp
  let ?s' = "registry_step s (ReaderArrives (fst a) (snd a))"
  have "\<forall>a' \<in> set arrivals. needs_refresh (snd a') (registry ?s')"
    using Cons.prems by (simp only: ReaderArrives_needs_refresh) simp
  from Cons.IH[OF this] show ?case
    using stale by simp
qed

text \<open>
  Answers to readers that wait, one answer per reader: each is applied when it
  arrives, so the catalog is then that of the latest answer, and one reader
  fewer waits.
\<close>

lemma answers_arrive:
  "distinct (map fst answers) \<Longrightarrow> set (map fst answers) \<subseteq> set (pending s) \<Longrightarrow>
   answers \<noteq> [] \<Longrightarrow>
   models (registry (foldl registry_step s
       (map (\<lambda>a. AnswerArrives (fst a) (Inr (fst (snd a))) (snd (snd a))) answers)))
     = fill_models (fst (snd (last answers))) \<and>
   lastUpdated (registry (foldl registry_step s
       (map (\<lambda>a. AnswerArrives (fst a) (Inr (fst (snd a))) (snd (snd a))) answers)))
     = snd (snd (last answers)) \<and>
   length (pending (foldl registry_step s
       (map (\<lambda>a. AnswerArrives (fst a) (Inr (fst (snd a))) (snd (snd a))) answers)))
     = length (pending s) - length answers \<and>
   requestCount (openrouterService (registry (foldl registry_step s
       (map (\<lambda>a. AnswerArrives (fst a) (Inr (fst (snd a))) (snd (snd a))) answers))))
     = requestCount (openrouterService (registry s))"
proof (induction answers arbitrary: s)
  case Nil
  then show ?case by simp
next
  case (Cons a answers)
  let ?s' = "registry_step s (AnswerArrives (fst a) (Inr (fst (snd a))) (snd (snd a)))"
  have mem: "fst a \<in> set (pending s)" using Cons.prems(2) by simp
  have s': "?s' = s\<lparr>registry := (registry s)\<lparr>models := fill_models (fst (snd a)),
                                            lastUpdated := snd (snd a)\<rparr>,
                    pending := remove1 (fst a) (pending s)\<rparr>"
    using mem by simp
  have len: "length (pending ?s') = length (pending s) - 1"
    using mem by (simp add: s' length_remove1)
  show ?case
  proof (cases "answers = []")
    case True
    then show ?thesis using s' len by simp
  next
    case False
    have d: "distinct (map fst answers)" using Cons.prems(1) by simp
    have sub: "set (map fst answers) \<subseteq> set (pending ?s')"
    proof
      fix x assume x: "x \<in> set (map fst answers)"
      moreover have "fst a \<notin> set (map fst answers)" using Cons.prems(1) by simp
      ultimately have "x \<noteq> fst a" by blast
      moreover have "x \<in> set (pending s)" using x Cons.prems(2) by auto
      ultimately show "x \<in> set (pending ?s')" by (simp add: s')
    qed
    from Cons.IH[OF d sub False] show ?thesis
      using False len by (simp add: s')
  qed
qed

text \<open>
  Claim C6.  The claim: among concurrent readers that each see a stale or
  empty catalog, at most one upstream fetch is in progress at a time; the
  first caller refreshes and the others await its result.

  The code has no such guard: \<open>refreshModelsIfNeeded\<close> tests only the map's
  size and the timestamp, and neither changes before an answer is in.  Two
  readers that arrive at an empty catalog one after the other, before any
  answer, have two fetches in flight.
\<close>

theorem C6_two_readers_two_fetches:
  "\<not> in_flight (registry_run
        \<lparr>registry = new_ModelRegistryService \<lparr>requestCount = 0\<rparr>, pending = []\<rparr>
        [ReaderArrives 1 1000, ReaderArrives 2 1001]) \<le> 1"
  by (simp add: registry_run_def in_flight_def new_ModelRegistryService_def needs_refresh_def)

text \<open>
  Claim C6, as the code has it: every reader that finds the catalog empty or
  stale sends its own upstream fetch.  When \<open>n\<close> such readers arrive before
  any answer, \<open>n\<close> more fetches are in flight and the request count has grown
  by \<open>n\<close>, with the catalog as it was.  Each reader then applies its own
  answer: as the answers to these readers arrive, in whatever order, the
  catalog after each one is the catalog of that answer, with that answer's
  timestamp, one fetch fewer is in flight, and no further request is sent.
\<close>

theorem C6_every_stale_reader_fetches:
  assumes "\<forall>a \<in> set arrivals. needs_refresh (snd a) (registry s)"
    and "distinct (map fst answers)"
    and "set (map fst answers) \<subseteq> set (pending s) \<union> set (map fst arrivals)"
  shows "pending (registry_run s (map (\<lambda>a. ReaderArrives (fst a) (snd a)) arrivals))
           = pending s @ map fst arrivals \<and>
         in_flight (registry_run s (map (\<lambda>a. ReaderArrives (fst a) (snd a)) arrivals))
           = in_flight s + length arrivals \<and>
         requestCount (openrouterService (registry
             (registry_run s (map (\<lambda>a. ReaderArrives (fst a) (snd a)) arrivals))))
           = requestCount (openrouterService (registry s)) + length arrivals \<and>
         models (registry (registry_run s (map (\<lambda>a. ReaderArrives (fst a) (snd a)) arrivals)))
           = models (registry s) \<and>
         (\<forall>k < length answers.
            models (registry (registry_run s
                (map (\<lambda>a. ReaderArrives (fst a) (snd a)) arrivals @
                 map (\<lambda>a. AnswerArrives (fst a) (Inr (fst (snd a))) (snd (snd a)))
                   (take (Suc k) answers))))
              = fill_models (fst (snd (answers ! k))) \<and>
            lastUpdated (registry (registry_run s
                (map (\<lambda>a. ReaderArrives (fst a) (snd a)) arrivals @
                 map (\<lambda>a. AnswerArrives (fst a) (Inr (fst (snd a))) (snd (snd a)))
                   (take (Suc k) answers))))
              = snd (snd (answers ! k)) \<and>
            in_flight (registry_run s
                (map (\<lambda>a. ReaderArrives (fst a) (snd a)) arrivals @
                 map (\<lambda>a. AnswerArrives (fst a) (Inr (fst (snd a))) (snd (snd a)))
                   (take (Suc k) answers)))
              = in_flight s + length arrivals - Suc k \<and>
            requestCount (openrouterService (registry (registry_run s
                (map (\<lambda>a. ReaderArrives (fst a) (snd a)) arrivals @
                 map (\<lambda>a. AnswerArrives (fst a) (Inr (fst (snd a))) (snd (snd a)))
                   (take (Suc k) answers)))))
              = requestCount (openrouterService (registry s)) + length arrivals)"
proof -
  let ?s1 = "foldl registry_step s (map (\<lambda>a. ReaderArrives (fst a) (snd a)) arrivals)"
  note arr = readers_arrive[OF assms(1)]
  have p1: "pending ?s1 = pending s @ map fst arrivals" using arr by simp
  have part2: "models (registry (foldl registry_step ?s1
         (map (\<lambda>a. AnswerArrives (fst a) (Inr (fst (snd a))) (snd (snd a))) (take (Suc k) answers))))
       = fill_models (fst (snd (answers ! k))) \<and>
     lastUpdated (registry (foldl registry_step ?s1
         (map (\<lambda>a. AnswerArrives (fst a) (Inr (fst (snd a))) (snd (snd a))) (take (Suc k) answers))))
       = snd (snd (answers ! k)) \<and>
     length (pending (foldl registry_step ?s1
         (map (\<lambda>a. AnswerArrives (fst a) (Inr (fst (snd a))) (snd (snd a))) (take (Suc k) answers))))
       = length (pending s) + length arrivals - Suc k \<and>
     requestCount (openrouterService (registry (foldl registry_step ?s1
         (map (\<lambda>a. AnswerArrives (fst a) (Inr (fst (snd a))) (snd (snd a))) (take (Suc k) answers)))))
       = requestCount (openrouterService (registry s)) + length arrivals"
    if k: "k < length answers" for k
  proof -
    have tk: "take (Suc k) answers = take k answers @ [answers ! k]"
      using k by (rule take_Suc_conv_app_nth)
    have ne: "take (Suc k) answers \<noteq> []" using tk by simp
    have la: "last (take (Suc k) answers) = answers ! k" using tk by simp
    have len: "length (take (Suc k) answers) = Suc k" using k by simp
    have d: "distinct (map fst (take (Suc k) answers))"
      using assms(2) by (simp add: take_map[symmetric] distinct_take del: take_Suc)
    have sub: "set (map fst (take (Suc k) answers)) \<subseteq> set (pending ?s1)"
    proof -
      have "set (take (Suc k) answers) \<subseteq> set answers" by (rule set_take_subset)
      then have "set (map fst (take (Suc k) answers)) \<subseteq> set (map fst answers)" by auto
      then show ?thesis using assms(3) p1 by auto
    qed
    have m: "min (length answers) (Suc k) = Suc k" using k by simp
    from answers_arrive[OF d sub ne] show ?thesis
      using arr by (simp add: la p1 m)
  qed
  show ?thesis
    using arr part2
    by (simp add: registry_run_def in_flight_def)
qed

text \<open>
  Three readers arrive at the empty catalog of a new registry; the answers to
  the second and then the first arrive, with different catalogs.
\<close>

theorem C6_every_stale_reader_fetches_witness:
  "needs_refresh 1000 (new_ModelRegistryService \<lparr>requestCount = 0\<rparr>) \<and>
   needs_refresh 1001 (new_ModelRegistryService \<lparr>requestCount = 0\<rparr>) \<and>
   needs_refresh 1002 (new_ModelRegistryService \<lparr>requestCount = 0\<rparr>) \<and>
   in_flight (registry_run
        \<lparr>registry = new_ModelRegistryService \<lparr>requestCount = 0\<rparr>, pending = []\<rparr>
        [ReaderArrives 1 1000, ReaderArrives 2 1001, ReaderArrives 3 1002]) = 3 \<and>
   requestCount (openrouterService (registry (registry_run
        \<lparr>registry = new_ModelRegistryService \<lparr>requestCount = 0\<rparr>, pending = []\<rparr>
        [ReaderArrives 1 1000, ReaderArrives 2 1001, ReaderArrives 3 1002]))) = 3 \<and>
   models (registry (registry_run
        \<lparr>registry = new_ModelRegistryService \<lparr>requestCount = 0\<rparr>, pending = []\<rparr>
        [ReaderArrives 1 1000, ReaderArrives 2 1001, ReaderArrives 3 1002,
         AnswerArrives 2 (Inr example_catalog) 1500]))
     = fill_models example_catalog \<and>
   models (registry (registry_run
        \<lparr>registry = new_ModelRegistryService \<lparr>requestCount = 0\<rparr>, pending = []\<rparr>
        [ReaderArrives 1 1000, ReaderArrives 2 1001, ReaderArrives 3 1002,
         AnswerArrives 2 (Inr example_catalog) 1500,
         AnswerArrives 1 (Inr [example_model ''acme/new'' 4096]) 1600]))
     = fill_models [example_model ''acme/new'' 4096] \<and>
   lastUpdated (registry (registry_run
        \<lparr>registry = new_ModelRegistryService \<lparr>requestCount = 0\<rparr>, pending = []\<rparr>
        [ReaderArrives 1 1000, ReaderArrives 2 1001, ReaderArrives 3 1002,
         AnswerArrives 2 (Inr example_catalog) 1500,
         AnswerArrives 1 (Inr [example_model ''acme/new'' 4096]) 1600])) = 1600 \<and>
   in_flight (registry_run
        \<lparr>registry = new_ModelRegistryService \<lparr>requestCount = 0\<rparr>, pending = []\<rparr>
        [ReaderArrives 1 1000, ReaderArrives 2 1001, ReaderArrives 3 1002,
         AnswerArrives 2 (Inr example_catalog) 1500,
         AnswerArrives 1 (Inr [example_model ''acme/new'' 4096]) 1600]) = 1"
proof -
  let ?s = "\<lparr>registry = new_ModelRegistryService \<lparr>requestCount = 0\<rparr>, pending = []\<rparr>"
  let ?arrivals = "[(1, 1000), (2, 1001), (3, 1002)] :: (nat \<times> int) list"
  let ?answers = "[(2, example_catalog, 1500), (1, [example_model ''acme/new'' 4096], 1600)]
                    :: (nat \<times> Model list \<times> int) list"
  have n: "needs_refresh t (new_ModelRegistryService \<lparr>requestCount = 0\<rparr>)" for t
    by (simp add: needs_refresh_def new_ModelRegistryService_def)
  have h1: "\<forall>a \<in> set ?arrivals. needs_refresh (snd a) (registry ?s)"
    using n by simp
  have h2: "distinct (map fst ?answers)" by simp
  have h3: "set (map fst ?answers) \<subseteq> set (pending ?s) \<union> set (map fst ?arrivals)" by simp
  note t = C6_every_stale_reader_fetches[OF h1 h2 h3]
  note a = t[THEN conjunct2, THEN conjunct1]
  note b = t[THEN conjunct2, THEN conjunct2, THEN conjunct1]
  note k0 = t[THEN conjunct2, THEN conjunct2, THEN conjunct2, THEN conjunct2, rule_format, of 0]
  note k1 = t[THEN conjunct2, THEN conjunct2, THEN conjunct2, THEN conjunct2, rule_format, of 1]
  show ?thesis
    using n a b k0 k1
    by (simp add: in_flight_def new_ModelRegistryService_def)
qed

section \<open>Properties: the streaming transform\<close>

lemma try_enqueue_underlying_source:
  "try_enqueue JSON_parse ThisUnderlyingSource payload st = st"
  by (simp add: try_enqueue_def split: option.splits)

lemma process_lines_queue:
  "queue (process_lines JSON_parse ThisUnderlyingSource ls st) = queue st"
  by (induction ls arbitrary: st)
     (auto simp add: Let_def try_enqueue_underlying_source controller_close_def split: sum.splits)

lemma on_event_queue:
  "queue (on_event JSON_parse ThisUnderlyingSource st ev) = queue st"
  by (cases ev)
     (auto simp add: on_data_def on_end_def on_error_def Let_def process_lines_queue
        controller_close_def split: sum.splits)

lemma run_queue:
  "queue (foldl (on_event JSON_parse ThisUnderlyingSource) st evs) = queue st"
  by (induction evs arbitrary: st) (simp_all add: on_event_queue)

text \<open>Whatever the upstream sends, the stream returned never holds a chunk.\<close>

lemma transformStreamingResponse_queue_empty:
  "queue (transformStreamingResponse JSON_parse evs) = []"
  by (simp add: transformStreamingResponse_def run_listeners_def run_queue initial_stream_def)

text \<open>
  Claim C1.  The claim: for a feed of well-formed \<open>data: <json>\<close> frames
  followed by \<open>data: [DONE]\<close>, the stream returned by
  \<open>transformStreamingResponse\<close> enqueues exactly one transformed chunk per
  frame, in input order, and then closes; three frames and the sentinel give
  3 enqueued chunks.

  On the three frames of \<open>example_feed\<close> the stream closes with nothing
  enqueued.  The listener calls \<open>(this as any).transformStreamingChunk\<close>, and
  \<open>this\<close> there is the object literal passed to \<open>new ReadableStream\<close>, which
  has no such member; the call throws, inside the \<open>try\<close> whose \<open>catch\<close> is
  meant for invalid JSON, and every frame is dropped.  With the service as
  \<open>this\<close> the same listeners enqueue the three chunks.  The upstream's \<open>end\<close>
  after \<open>[DONE]\<close> then calls \<open>close\<close> on the closed stream, which throws
  out of the listener.
\<close>

theorem C1_no_chunk_is_enqueued:
  "transformStreamingResponse example_parse example_feed =
     \<lparr>buffer = [], queue = [], closed = True, errored = None,
      uncaught = [TypeError ''Invalid state: Controller is already closed'']\<rparr> \<and>
   queue (run_listeners example_parse ThisOpenRouterService example_feed) =
     map (\<lambda>w. JObject [(''id'', JString ''gen-1''),
                       (''choices'', JArray [JObject [(''delta'', JObject [(''content'', JString w)])]]),
                       (''object'', JString ''chat.completion.chunk'')])
       [''Hel'', ''lo'', ''!'']"
  by (simp add: transformStreamingResponse_def run_listeners_def example_feed_def frame_def
      example_payload_def example_parse_def example_value_def dq_def on_data_def on_end_def
      initial_stream_def Let_def trim_def is_space_def try_enqueue_def controller_close_def
      controller_enqueue_def transformStreamingChunk_def transform_choice_def opt_member_def)

section \<open>Properties: controllers/websocketController.ts\<close>

subsection \<open>The connection map\<close>

lemma update_connection_keys: "map fst (update_connection k f conns) = map fst conns"
  by (induction conns) (auto simp add: update_connection_def)

lemma map_of_update_connection:
  "map_of (update_connection k f conns) k' =
     (if k' = k then map_option f (map_of conns k) else map_of conns k')"
  by (induction conns) (auto simp add: update_connection_def)

subsection \<open>The heartbeat sweep\<close>

lemma sweep_entry_keys:
  "map fst (connections (sweep_entry t n ctrl entry)) = map fst (connections ctrl)"
  by (cases entry) (simp add: sweep_entry_def update_connection_keys)

lemma sweep_fold_keys:
  "map fst (connections (foldl (sweep_entry t n) ctrl es)) = map fst (connections ctrl)"
  by (induction es arbitrary: ctrl) (simp_all add: sweep_entry_keys)

text \<open>The sweep deletes no record: the same connections stay in the map.\<close>

lemma heartbeat_sweep_keys:
  "map fst (connections (heartbeat_sweep t n ctrl)) = map fst (connections ctrl)"
  by (simp add: heartbeat_sweep_def sweep_fold_keys)

lemma sweep_entry_active:
  "activeConnections (stats (sweep_entry t n ctrl entry)) =
     activeConnections (stats ctrl)
       - (if t - lastActivity (snd entry) > heartbeat_timeout then 1 else 0)"
  by (cases entry) (simp add: sweep_entry_def)

lemma sweep_fold_active:
  "activeConnections (stats (foldl (sweep_entry t n) ctrl es)) =
     activeConnections (stats ctrl)
       - int (length (filter (\<lambda>entry. t - lastActivity (snd entry) > heartbeat_timeout) es))"
  by (induction es arbitrary: ctrl) (simp_all add: sweep_entry_active)

text \<open>
  One sweep lowers the active count by the number of records whose last
  activity is more than the timeout ago, whether or not they were still
  active.
\<close>

lemma heartbeat_sweep_active:
  "activeConnections (stats (heartbeat_sweep t n ctrl)) =
     activeConnections (stats ctrl)
       - int (length (filter (\<lambda>entry. t - lastActivity (snd entry) > heartbeat_timeout)
                        (connections ctrl)))"
  by (simp add: heartbeat_sweep_def sweep_fold_active)

lemma sweep_entry_lastActivity:
  "map (\<lambda>entry. lastActivity (snd entry)) (connections (sweep_entry t n ctrl entry)) =
   map (\<lambda>entry. lastActivity (snd entry)) (connections ctrl)"
  by (cases entry) (auto simp add: sweep_entry_def update_connection_def)

lemma sweep_fold_lastActivity:
  "map (\<lambda>entry. lastActivity (snd entry)) (connections (foldl (sweep_entry t n) ctrl es)) =
   map (\<lambda>entry. lastActivity (snd entry)) (connections ctrl)"
  by (induction es arbitrary: ctrl) (simp_all add: sweep_entry_lastActivity)

text \<open>
  A sweep leaves every \<open>lastActivity\<close> as it was, so a record that has timed
  out is counted again by every later sweep for as long as it is in the map.
\<close>

lemma two_sweeps_active:
  assumes "t \<le> t'"
  shows "activeConnections (stats (heartbeat_sweep t' n' (heartbeat_sweep t n ctrl))) \<le>
           activeConnections (stats ctrl)
             - 2 * int (length (filter (\<lambda>entry. t - lastActivity (snd entry) > heartbeat_timeout)
                                  (connections ctrl)))"
proof -
  let ?s = "heartbeat_sweep t n ctrl"
  let ?la = "\<lambda>entry :: string \<times> WebSocketConnection. lastActivity (snd entry)"
  have la: "map ?la (connections ?s) = map ?la (connections ctrl)"
    by (simp add: heartbeat_sweep_def sweep_fold_lastActivity)
  have "length (filter (\<lambda>entry. t' - ?la entry > heartbeat_timeout) (connections ?s))
        = length (filter (\<lambda>a. t' - a > heartbeat_timeout) (map ?la (connections ?s)))"
    by (simp add: comp_def)
  also have "\<dots> = length (filter (\<lambda>entry. t' - ?la entry > heartbeat_timeout) (connections ctrl))"
    by (simp add: la comp_def)
  finally have eq: "length (filter (\<lambda>entry. t' - ?la entry > heartbeat_timeout) (connections ?s))
        = length (filter (\<lambda>entry. t' - ?la entry > heartbeat_timeout) (connections ctrl))" .
  have mono: "length (filter (\<lambda>entry. t - ?la entry > heartbeat_timeout) (connections ctrl))
        \<le> length (filter (\<lambda>entry. t' - ?la entry > heartbeat_timeout) (connections ctrl))"
  proof -
    have "filter (\<lambda>entry. t - ?la entry > heartbeat_timeout) (connections ctrl)
          = filter (\<lambda>entry. t - ?la entry > heartbeat_timeout)
              (filter (\<lambda>entry. t' - ?la entry > heartbeat_timeout) (connections ctrl))"
      using assms by (auto intro: filter_cong)
    then show ?thesis
      by (metis length_filter_le)
  qed
  show ?thesis
    using eq mono
    by (simp add: heartbeat_sweep_active[of t' n' ?s] heartbeat_sweep_active[of t n ctrl])
qed


lemma example_controller_eq:
  "example_controller =
     \<lparr>connections = [(''conn-1'', \<lparr>conn_id = ''conn-1'', connectedAt = 0, lastActivity = 0,
                       isActive = True, currentRequestId = None, ip = ''10.0.0.1'',
                       userAgent = ''agent''\<rparr>)],
      stats = \<lparr>totalConnections = 1, activeConnections = 1, totalMessages = 0,
               totalErrors = 0, averageConnectionDuration = 0, peakConnections = 1\<rparr>,
      cleanups = [], streamingCalls = [], pingsSent = 0\<rparr>"
  by (simp add: example_controller_def handleConnection_def new_WebSocketController_def
      open_socket_def Let_def)

text \<open>
  Claim C4.  The claim: for a tracked session whose time since last activity
  exceeds the timeout, the heartbeat sweep marks it inactive and the
  active-session count decreases by exactly one in total, not once per later
  sweep, while the record stays in the connection map until the grace period
  after a disconnect has passed.

  The sweep marks the session inactive and keeps the record
  (\<open>heartbeat_sweep_keys\<close>), but its timeout branch does not test \<open>isActive\<close>
  as the ping branch does: the count is decremented for every timed-out
  record at every sweep (\<open>heartbeat_sweep_active\<close>, \<open>two_sweeps_active\<close>).  One
  session connected at time 0 and silent since: the sweep at 90000 takes the
  count from 1 to 0, the sweep at 120000 takes it to -1, with the record still
  in the map.
\<close>

theorem C4_every_sweep_decrements:
  "activeConnections (stats example_controller) = 1 \<and>
   activeConnections (stats (heartbeat_sweep 90000 1 example_controller)) = 0 \<and>
   map isActive (getConnections (heartbeat_sweep 90000 1 example_controller)) = [False] \<and>
   activeConnections (stats (heartbeat_sweep 120000 1 (heartbeat_sweep 90000 1 example_controller))) = - 1 \<and>
   map conn_id (getConnections (heartbeat_sweep 120000 1 (heartbeat_sweep 90000 1 example_controller)))
     = [''conn-1'']"
  by (simp add: example_controller_eq heartbeat_sweep_def sweep_entry_def heartbeat_timeout_def
      update_connection_def getConnections_def)

subsection \<open>What a handler sends\<close>

lemma sendMessage_sent:
  "sent (sendMessage message ws) = sent ws @ (if readyState ws = OPEN then [message] else [])"
  by (simp add: sendMessage_def)

lemma sendMessage_readyState: "readyState (sendMessage message ws) = readyState ws"
  by (simp add: sendMessage_def)

lemma sendError_sent:
  "\<exists>body. sent (sendError connectionId err ws) =
      sent ws @ (if readyState ws = OPEN then [ErrorMsg connectionId body] else [])"
  by (simp add: sendError_def sendMessage_sent)

lemma sendError_grows:
  "\<exists>new. sent (sendError connectionId err ws) = sent ws @ new \<and>
         (\<forall>i b. ErrorMsg i b \<in> set new \<longrightarrow> i = connectionId)"
  using sendError_sent[of connectionId err ws] by auto

lemma ws_close_sent: "sent (ws_close code reason ws) = sent ws"
  by (simp add: ws_close_def)

lemma relay_line_grows:
  "\<exists>new. sent (fst (relay_line JSON_parse requestId line acc)) = sent (fst acc) @ new \<and>
         (\<forall>i b. ErrorMsg i b \<notin> set new)"
  by (cases acc)
     (auto simp add: relay_line_def sendMessage_sent Let_def split: option.splits json.splits)

lemma relay_lines_grows:
  "\<exists>new. sent (fst (foldl (\<lambda>a line. relay_line JSON_parse requestId line a) acc ls))
            = sent (fst acc) @ new \<and> (\<forall>i b. ErrorMsg i b \<notin> set new)"
proof (induction ls arbitrary: acc)
  case Nil
  then show ?case by simp
next
  case (Cons l ls)
  obtain n1 where n1: "sent (fst (relay_line JSON_parse requestId l acc)) = sent (fst acc) @ n1"
      "\<forall>i b. ErrorMsg i b \<notin> set n1"
    using relay_line_grows[of JSON_parse requestId l acc] by blast
  obtain n2 where n2:
      "sent (fst (foldl (\<lambda>a line. relay_line JSON_parse requestId line a)
                    (relay_line JSON_parse requestId l acc) ls))
         = sent (fst (relay_line JSON_parse requestId l acc)) @ n2"
      "\<forall>i b. ErrorMsg i b \<notin> set n2"
    using Cons.IH[of "relay_line JSON_parse requestId l acc"] by blast
  show ?case
    by (rule exI[of _ "n1 @ n2"]) (use n1 n2 in simp)
qed

lemma relay_chunks_grows:
  "\<exists>new. sent (fst (foldl (relay_chunk JSON_parse requestId) acc chunks))
            = sent (fst acc) @ new \<and> (\<forall>i b. ErrorMsg i b \<notin> set new)"
proof (induction chunks arbitrary: acc)
  case Nil
  then show ?case by simp
next
  case (Cons c cs)
  obtain n1 where n1: "sent (fst (relay_chunk JSON_parse requestId acc c)) = sent (fst acc) @ n1"
      "\<forall>i b. ErrorMsg i b \<notin> set n1"
    using relay_lines_grows[of JSON_parse requestId acc "split_str CHR ''\<newline>'' c"]
    by (auto simp add: relay_chunk_def)
  obtain n2 where n2:
      "sent (fst (foldl (relay_chunk JSON_parse requestId) (relay_chunk JSON_parse requestId acc c) cs))
         = sent (fst (relay_chunk JSON_parse requestId acc c)) @ n2"
      "\<forall>i b. ErrorMsg i b \<notin> set n2"
    using Cons.IH[of "relay_chunk JSON_parse requestId acc c"] by blast
  show ?case
    by (rule exI[of _ "n1 @ n2"]) (use n1 n2 in simp)
qed

lemma inference_catch_grows:
  "\<exists>new. sent (fst (inference_catch connectionId err ws ctrl)) = sent ws @ new \<and>
         (\<forall>i b. ErrorMsg i b \<in> set new \<longrightarrow> i = connectionId)"
  using sendError_grows[of connectionId "internal_error err" ws]
  by (simp add: inference_catch_def)

lemma handleInferenceRequest_finish_grows:
  "\<exists>new. sent (fst (handleInferenceRequest_finish JSON_parse connectionId requestId outcome ws ctrl))
            = sent ws @ new \<and> (\<forall>i b. ErrorMsg i b \<in> set new \<longrightarrow> i = connectionId)"
proof (cases outcome)
  case (Inl err)
  then show ?thesis
    using inference_catch_grows[of connectionId err ws ctrl]
    by (simp add: handleInferenceRequest_finish_def)
next
  case (Inr p)
  obtain chunks ending where p: "p = (chunks, ending)" by (cases p)
  let ?ws1 = "fst (foldl (relay_chunk JSON_parse requestId) (ws, []) chunks)"
  obtain n1 where n1: "sent ?ws1 = sent ws @ n1" "\<forall>i b. ErrorMsg i b \<notin> set n1"
    using relay_chunks_grows[of JSON_parse requestId "(ws, [])" chunks] by auto
  show ?thesis
  proof (cases ending)
    case None
    show ?thesis
      by (rule exI[of _ n1])
         (use n1 Inr p None in \<open>simp add: handleInferenceRequest_finish_def Let_def\<close>)
  next
    case (Some err)
    let ?ctrl' = "ctrl\<lparr>connections :=
                        update_connection connectionId (\<lambda>c. c\<lparr>currentRequestId := None\<rparr>)
                          (connections ctrl)\<rparr>"
    obtain n2 where n2: "sent (fst (inference_catch connectionId err ?ws1 ?ctrl')) = sent ?ws1 @ n2"
        "\<forall>i b. ErrorMsg i b \<in> set n2 \<longrightarrow> i = connectionId"
      using inference_catch_grows[of connectionId err ?ws1 ?ctrl'] by blast
    show ?thesis
      by (rule exI[of _ "n1 @ n2"])
         (use n1 n2 Inr p Some in \<open>auto simp add: handleInferenceRequest_finish_def Let_def\<close>)
  qed
qed

lemma handleInferenceRequest_begin_grows:
  "\<exists>new. sent (fst (fst (handleInferenceRequest_begin connectionId requestId d validated ws ctrl)))
            = sent ws @ new \<and> (\<forall>i b. ErrorMsg i b \<in> set new \<longrightarrow> i = connectionId)"
proof (cases "map_of (connections ctrl) connectionId")
  case None
  then show ?thesis by (simp add: handleInferenceRequest_begin_def)
next
  case (Some connection)
  show ?thesis
  proof (cases validated)
    case (Inl err)
    then show ?thesis
      using Some inference_catch_grows[of connectionId err ws ctrl]
      by (simp add: handleInferenceRequest_begin_def)
  next
    case (Inr ok)
    show ?thesis
    proof (cases ok)
      case True
      then show ?thesis using Some Inr by (simp add: handleInferenceRequest_begin_def)
    next
      case False
      then show ?thesis
        using Some Inr sendError_grows[of connectionId _ ws]
        by (simp add: handleInferenceRequest_begin_def)
    qed
  qed
qed

lemma handleInferenceRequest_grows:
  "\<exists>new. sent (fst (handleInferenceRequest JSON_parse connectionId requestId d validated outcome ws ctrl))
            = sent ws @ new \<and> (\<forall>i b. ErrorMsg i b \<in> set new \<longrightarrow> i = connectionId)"
proof -
  obtain ws1 ctrl1 waiting where b:
    "handleInferenceRequest_begin connectionId requestId d validated ws ctrl = ((ws1, ctrl1), waiting)"
    by (metis prod.exhaust)
  obtain n1 where n1: "sent ws1 = sent ws @ n1" "\<forall>i b. ErrorMsg i b \<in> set n1 \<longrightarrow> i = connectionId"
    using handleInferenceRequest_begin_grows[of connectionId requestId d validated ws ctrl] b
    by auto
  show ?thesis
  proof (cases waiting)
    case True
    obtain n2 where n2:
      "sent (fst (handleInferenceRequest_finish JSON_parse connectionId requestId outcome ws1 ctrl1))
         = sent ws1 @ n2" "\<forall>i b. ErrorMsg i b \<in> set n2 \<longrightarrow> i = connectionId"
      using handleInferenceRequest_finish_grows[of JSON_parse connectionId requestId outcome ws1 ctrl1]
      by blast
    show ?thesis
      by (rule exI[of _ "n1 @ n2"])
         (use n1 n2 b True in \<open>auto simp add: handleInferenceRequest_def\<close>)
  next
    case False
    show ?thesis
      by (rule exI[of _ n1]) (use n1 b False in \<open>simp add: handleInferenceRequest_def\<close>)
  qed
qed

lemma processMessage_grows:
  "\<exists>new. sent (fst (processMessage JSON_parse aw t connectionId message ws ctrl))
            = sent ws @ new \<and> (\<forall>i b. ErrorMsg i b \<in> set new \<longrightarrow> i = connectionId)"
proof (cases "map_of (connections ctrl) connectionId")
  case None
  then show ?thesis by (simp add: processMessage_def)
next
  case (Some connection)
  show ?thesis
  proof (cases message)
    case (InferenceRequestMsg requestId d)
    then show ?thesis
      using Some handleInferenceRequest_grows[of JSON_parse connectionId requestId d
          "modelExists aw" "stream aw" ws ctrl]
      by (simp add: processMessage_def)
  next
    case (InferenceResponseMsg i d)
    then show ?thesis
      using Some sendError_grows[of connectionId _ ws] by (simp add: processMessage_def)
  next
    case (ErrorMsg i b)
    then show ?thesis
      using Some sendError_grows[of connectionId _ ws] by (simp add: processMessage_def)
  next
    case (HeartbeatMsg ts)
    then show ?thesis
      using Some by (simp add: processMessage_def handleHeartbeat_def sendMessage_sent)
  next
    case (CloseMsg reason code)
    then show ?thesis
      using Some by (simp add: processMessage_def handleClose_def ws_close_sent)
  qed
qed

lemma handleMessage_grows:
  "\<exists>new. sent (fst (handleMessage JSON_parse aw t connectionId received ws ctrl))
            = sent ws @ new \<and> (\<forall>i b. ErrorMsg i b \<in> set new \<longrightarrow> i = connectionId)"
proof (cases "map_of (connections ctrl) connectionId")
  case None
  then show ?thesis by (simp add: handleMessage_def)
next
  case (Some connection)
  show ?thesis
  proof (cases received)
    case ParseThrows
    then show ?thesis
      using Some sendError_grows[of connectionId _ ws] by (simp add: handleMessage_def Let_def)
  next
    case (Rejected details)
    then show ?thesis
      using Some sendError_grows[of connectionId _ ws] by (simp add: handleMessage_def Let_def)
  next
    case (Valid message)
    then show ?thesis
      using Some processMessage_grows[of JSON_parse aw t connectionId message ws]
      by (simp add: handleMessage_def Let_def)
  qed
qed


lemma sendError_open:
  "readyState ws = OPEN \<Longrightarrow>
   \<exists>body. sent (sendError connectionId err ws) = sent ws @ [ErrorMsg connectionId body]"
  using sendError_sent[of connectionId err ws] by simp

text \<open>
  On an open socket of a tracked connection, each of the failures answers with
  exactly one error message, whose \<open>id\<close> is the connection's.
\<close>

lemma handleMessage_invalid_json:
  "readyState ws = OPEN \<Longrightarrow> map_of (connections ctrl) connectionId = Some connection \<Longrightarrow>
   \<exists>body. sent (fst (handleMessage JSON_parse aw t connectionId ParseThrows ws ctrl))
            = sent ws @ [ErrorMsg connectionId body]"
  using sendError_open[of ws connectionId]
  by (simp add: handleMessage_def Let_def)

lemma handleMessage_rejected:
  "readyState ws = OPEN \<Longrightarrow> map_of (connections ctrl) connectionId = Some connection \<Longrightarrow>
   \<exists>body. sent (fst (handleMessage JSON_parse aw t connectionId (Rejected details) ws ctrl))
            = sent ws @ [ErrorMsg connectionId body]"
  using sendError_open[of ws connectionId]
  by (simp add: handleMessage_def Let_def)

lemma handleMessage_unknown_type:
  "readyState ws = OPEN \<Longrightarrow> map_of (connections ctrl) connectionId = Some connection \<Longrightarrow>
   message = InferenceResponseMsg i d \<or> message = ErrorMsg i b \<Longrightarrow>
   \<exists>body. sent (fst (handleMessage JSON_parse aw t connectionId (Valid message) ws ctrl))
            = sent ws @ [ErrorMsg connectionId body]"
  using sendError_open[of ws connectionId]
  by (auto simp add: handleMessage_def Let_def processMessage_def map_of_update_connection)

lemma handleMessage_failed_inference:
  "readyState ws = OPEN \<Longrightarrow> map_of (connections ctrl) connectionId = Some connection \<Longrightarrow>
   modelExists aw = Inr False \<or> modelExists aw = Inl err
     \<or> (modelExists aw = Inr True \<and> stream aw = Inl err) \<Longrightarrow>
   \<exists>body. sent (fst (handleMessage JSON_parse aw t connectionId
                       (Valid (InferenceRequestMsg requestId d)) ws ctrl))
            = sent ws @ [ErrorMsg connectionId body]"
  using sendError_open[of ws connectionId]
  by (auto simp add: handleMessage_def Let_def processMessage_def map_of_update_connection
      handleInferenceRequest_def handleInferenceRequest_begin_def handleInferenceRequest_finish_def
      inference_catch_def)

text \<open>
  The answer to a failed inference request is the same whatever the request's
  own \<open>id\<close> is.
\<close>

lemma failed_inference_ignores_request_id:
  assumes "modelExists aw \<noteq> Inr True \<or> (\<exists>err. stream aw = Inl err)"
  shows "fst (handleMessage JSON_parse aw t connectionId (Valid (InferenceRequestMsg r1 d)) ws ctrl)
       = fst (handleMessage JSON_parse aw t connectionId (Valid (InferenceRequestMsg r2 d)) ws ctrl)"
proof (cases "map_of (connections ctrl) connectionId")
  case None
  then show ?thesis by (simp add: handleMessage_def)
next
  case (Some connection)
  show ?thesis
  proof (cases "modelExists aw")
    case (Inl err)
    then show ?thesis
      using Some
      by (simp add: handleMessage_def Let_def processMessage_def map_of_update_connection
          handleInferenceRequest_def handleInferenceRequest_begin_def)
  next
    case (Inr ok)
    show ?thesis
    proof (cases ok)
      case False
      then show ?thesis
        using Some Inr
        by (simp add: handleMessage_def Let_def processMessage_def map_of_update_connection
            handleInferenceRequest_def handleInferenceRequest_begin_def)
    next
      case True
      then obtain err where "stream aw = Inl err" using assms Inr by auto
      then show ?thesis
        using Some Inr True
        by (simp add: handleMessage_def Let_def processMessage_def map_of_update_connection
            handleInferenceRequest_def handleInferenceRequest_begin_def
            handleInferenceRequest_finish_def inference_catch_def)
    qed
  qed
qed

text \<open>
  Claim C9.  Every error message sent over a session while a received
  message is handled carries the connection identifier in its \<open>id\<close>: the
  messages the handling adds to those already sent contain no error message
  with another \<open>id\<close>.  On an open socket of a tracked connection, invalid
  JSON, a message the schema rejects, an unknown message type and a failed
  inference request (model not found, or \<open>validateModel\<close> or
  \<open>createStreamingCompletion\<close> throwing) are each answered by exactly one
  error message, whose \<open>id\<close> is the connection identifier.  What is sent
  for a failed inference request does not depend on the request's own \<open>id\<close>,
  so the error cannot be matched to the request by it.
\<close>

theorem C9_error_id_is_connection_id:
  "(\<exists>new. sent (fst (handleMessage JSON_parse aw t connectionId received ws ctrl)) = sent ws @ new \<and>
          (\<forall>i b. ErrorMsg i b \<in> set new \<longrightarrow> i = connectionId)) \<and>
   (readyState ws = OPEN \<and> map_of (connections ctrl) connectionId \<noteq> None \<and>
    (received = ParseThrows \<or> (\<exists>details. received = Rejected details) \<or>
     (\<exists>i d. received = Valid (InferenceResponseMsg i d)) \<or>
     (\<exists>i b. received = Valid (ErrorMsg i b)) \<or>
     (\<exists>requestId d. received = Valid (InferenceRequestMsg requestId d) \<and>
        (modelExists aw = Inr False \<or> (\<exists>err. modelExists aw = Inl err) \<or>
         (modelExists aw = Inr True \<and> (\<exists>err. stream aw = Inl err))))) \<longrightarrow>
    (\<exists>body. sent (fst (handleMessage JSON_parse aw t connectionId received ws ctrl))
              = sent ws @ [ErrorMsg connectionId body])) \<and>
   (modelExists aw \<noteq> Inr True \<or> (\<exists>err. stream aw = Inl err) \<longrightarrow>
      fst (handleMessage JSON_parse aw t connectionId (Valid (InferenceRequestMsg requestId d)) ws ctrl)
    = fst (handleMessage JSON_parse aw t connectionId (Valid (InferenceRequestMsg requestId' d)) ws ctrl))"
proof (intro conjI impI)
  assume "modelExists aw \<noteq> Inr True \<or> (\<exists>err. stream aw = Inl err)"
  then show "fst (handleMessage JSON_parse aw t connectionId (Valid (InferenceRequestMsg requestId d)) ws ctrl)
    = fst (handleMessage JSON_parse aw t connectionId (Valid (InferenceRequestMsg requestId' d)) ws ctrl)"
    by (rule failed_inference_ignores_request_id)
next
  show "\<exists>new. sent (fst (handleMessage JSON_parse aw t connectionId received ws ctrl)) = sent ws @ new \<and>
          (\<forall>i b. ErrorMsg i b \<in> set new \<longrightarrow> i = connectionId)"
    by (rule handleMessage_grows)
next
  assume h: "readyState ws = OPEN \<and> map_of (connections ctrl) connectionId \<noteq> None \<and>
    (received = ParseThrows \<or> (\<exists>details. received = Rejected details) \<or>
     (\<exists>i d. received = Valid (InferenceResponseMsg i d)) \<or>
     (\<exists>i b. received = Valid (ErrorMsg i b)) \<or>
     (\<exists>requestId d. received = Valid (InferenceRequestMsg requestId d) \<and>
        (modelExists aw = Inr False \<or> (\<exists>err. modelExists aw = Inl err) \<or>
         (modelExists aw = Inr True \<and> (\<exists>err. stream aw = Inl err)))))"
  then obtain connection where c: "map_of (connections ctrl) connectionId = Some connection"
    by auto
  have op: "readyState ws = OPEN" using h by simp
  from h consider "received = ParseThrows" | details where "received = Rejected details"
    | i d where "received = Valid (InferenceResponseMsg i d)"
    | i b where "received = Valid (ErrorMsg i b)"
    | requestId d err where "received = Valid (InferenceRequestMsg requestId d)"
        "modelExists aw = Inr False \<or> modelExists aw = Inl err
          \<or> (modelExists aw = Inr True \<and> stream aw = Inl err)"
    by blast
  then show "\<exists>body. sent (fst (handleMessage JSON_parse aw t connectionId received ws ctrl))
              = sent ws @ [ErrorMsg connectionId body]"
  proof cases
    case 1
    then show ?thesis using handleMessage_invalid_json[OF op c] by simp
  next
    case 2
    then show ?thesis using handleMessage_rejected[OF op c] by simp
  next
    case 3
    then show ?thesis using handleMessage_unknown_type[OF op c, of _ i d] by simp
  next
    case 4
    then show ?thesis using handleMessage_unknown_type[OF op c, of _ i _ b] by simp
  next
    case 5
    then show ?thesis using handleMessage_failed_inference[OF op c 5(2)] by simp
  qed
qed

text \<open>
  The request \<open>req-1\<close> on connection \<open>conn-1\<close>, for a model that does not
  validate: the error's \<open>id\<close> is \<open>conn-1\<close>.
\<close>

theorem C9_error_id_is_connection_id_witness:
  "readyState open_socket = OPEN \<and> map_of (connections example_controller) ''conn-1'' \<noteq> None \<and>
   sent open_socket = [] \<and>
   (\<exists>body. sent (fst (handleMessage example_parse
                        \<lparr>modelExists = Inr False, stream = Inr ([], None)\<rparr> 5 ''conn-1''
                        (Valid (InferenceRequestMsg ''req-1'' example_request))
                        open_socket example_controller))
             = [ErrorMsg ''conn-1'' body])"
proof -
  have a: "readyState open_socket = OPEN" "sent open_socket = []"
    by (simp_all add: open_socket_def)
  have b: "map_of (connections example_controller) ''conn-1'' \<noteq> None"
    by (simp add: example_controller_eq)
  show ?thesis
    using a b
      C9_error_id_is_connection_id
        [of example_parse "\<lparr>modelExists = Inr False, stream = Inr ([], None)\<rparr>" 5 "''conn-1''"
            "Valid (InferenceRequestMsg ''req-1'' example_request)" open_socket example_controller]
    by simp
qed

subsection \<open>A second request while one is in flight\<close>

lemma example_in_flight_eq:
  "example_in_flight =
     example_controller\<lparr>
       connections := [(''conn-1'', \<lparr>conn_id = ''conn-1'', connectedAt = 0, lastActivity = 0,
                         isActive = True, currentRequestId = Some ''req-1'', ip = ''10.0.0.1'',
                         userAgent = ''agent''\<rparr>)],
       streamingCalls := [example_request]\<rparr>"
  by (simp add: example_in_flight_def handleInferenceRequest_begin_def example_controller_eq
      update_connection_def)

text \<open>
  Claim C3.  The claim: when a session has an outstanding inference request
  (\<open>currentRequestId\<close> is set), a second \<open>inference_request\<close> on it is rejected
  with a validation error and no new upstream streaming call is started.

  \<open>handleInferenceRequest\<close> never reads \<open>currentRequestId\<close>.  While \<open>req-1\<close>
  waits for its stream, the handler for \<open>req-2\<close> on the same session sends no
  error, overwrites the marker with \<open>req-2\<close>, calls
  \<open>createStreamingCompletion\<close> a second time and waits for that stream.
\<close>

theorem C3_second_request_is_started:
  "map currentRequestId (getConnections example_in_flight) = [Some ''req-1''] \<and>
   streamingCalls example_in_flight = [example_request] \<and>
   snd (handleInferenceRequest_begin ''conn-1'' ''req-2'' example_request (Inr True)
          open_socket example_in_flight) = True \<and>
   sent (fst (fst (handleInferenceRequest_begin ''conn-1'' ''req-2'' example_request (Inr True)
          open_socket example_in_flight))) = [] \<and>
   streamingCalls (snd (fst (handleInferenceRequest_begin ''conn-1'' ''req-2'' example_request
          (Inr True) open_socket example_in_flight))) = [example_request, example_request] \<and>
   map currentRequestId (getConnections (snd (fst (handleInferenceRequest_begin ''conn-1'' ''req-2''
          example_request (Inr True) open_socket example_in_flight)))) = [Some ''req-2'']"
  by (simp add: example_in_flight_eq example_controller_eq handleInferenceRequest_begin_def
      getConnections_def update_connection_def open_socket_def)

text \<open>
  Claim C3, as the code has it: an inference request that arrives on a session
  with an outstanding request is handled like any other.  If its model
  validates, nothing is sent, the new request's id replaces the outstanding
  one in \<open>currentRequestId\<close> and a new upstream streaming call is started;
  the request is rejected with a validation error, and no call started, only
  if its model does not validate.
\<close>

theorem C3_in_flight_marker_is_not_checked:
  assumes "map_of (connections ctrl) connectionId = Some connection"
    and "currentRequestId connection = Some outstanding"
  shows "handleInferenceRequest_begin connectionId requestId d (Inr True) ws ctrl =
           ((ws, ctrl\<lparr>connections :=
                        update_connection connectionId
                          (\<lambda>c. c\<lparr>currentRequestId := Some requestId\<rparr>) (connections ctrl),
                      streamingCalls := streamingCalls ctrl @ [d]\<rparr>), True) \<and>
         map_of (connections (snd (fst (handleInferenceRequest_begin connectionId requestId d
                   (Inr True) ws ctrl)))) connectionId
           = Some (connection\<lparr>currentRequestId := Some requestId\<rparr>) \<and>
         snd (handleInferenceRequest_begin connectionId requestId d (Inr False) ws ctrl) = False \<and>
         streamingCalls (snd (fst (handleInferenceRequest_begin connectionId requestId d
                   (Inr False) ws ctrl))) = streamingCalls ctrl \<and>
         fst (fst (handleInferenceRequest_begin connectionId requestId d (Inr False) ws ctrl))
           = sendError connectionId
               \<lparr>arg_code = Some 400,
                arg_message = Some (''Model '' @ [CHR 0x27] @ req_model d @ [CHR 0x27]
                                    @ '' not found or not supported''),
                arg_type = Some ''validation'', arg_details = None\<rparr> ws"
  using assms
  by (simp add: handleInferenceRequest_begin_def map_of_update_connection)

theorem C3_in_flight_marker_is_not_checked_witness:
  "map_of (connections example_in_flight) ''conn-1''
     = Some \<lparr>conn_id = ''conn-1'', connectedAt = 0, lastActivity = 0, isActive = True,
             currentRequestId = Some ''req-1'', ip = ''10.0.0.1'', userAgent = ''agent''\<rparr> \<and>
   snd (handleInferenceRequest_begin ''conn-1'' ''req-2'' example_request (Inr True)
          open_socket example_in_flight) = True \<and>
   map_of (connections (snd (fst (handleInferenceRequest_begin ''conn-1'' ''req-2'' example_request
          (Inr True) open_socket example_in_flight)))) ''conn-1''
     = Some \<lparr>conn_id = ''conn-1'', connectedAt = 0, lastActivity = 0, isActive = True,
             currentRequestId = Some ''req-2'', ip = ''10.0.0.1'', userAgent = ''agent''\<rparr>"
proof -
  have a: "map_of (connections example_in_flight) ''conn-1''
     = Some \<lparr>conn_id = ''conn-1'', connectedAt = 0, lastActivity = 0, isActive = True,
             currentRequestId = Some ''req-1'', ip = ''10.0.0.1'', userAgent = ''agent''\<rparr>"
    by (simp add: example_in_flight_eq)
  have b: "currentRequestId \<lparr>conn_id = ''conn-1'', connectedAt = 0, lastActivity = 0, isActive = True,
             currentRequestId = Some ''req-1'', ip = ''10.0.0.1'', userAgent = ''agent''\<rparr>
           = Some ''req-1''"
    by simp
  note t = C3_in_flight_marker_is_not_checked[OF a b, of "''req-2''" example_request open_socket]
  have s: "snd (handleInferenceRequest_begin ''conn-1'' ''req-2'' example_request (Inr True)
          open_socket example_in_flight) = True"
    using conjunct1[OF t] by simp
  have m: "map_of (connections (snd (fst (handleInferenceRequest_begin ''conn-1'' ''req-2''
          example_request (Inr True) open_socket example_in_flight)))) ''conn-1''
     = Some \<lparr>conn_id = ''conn-1'', connectedAt = 0, lastActivity = 0, isActive = True,
             currentRequestId = Some ''req-2'', ip = ''10.0.0.1'', userAgent = ''agent''\<rparr>"
    using conjunct1[OF conjunct2[OF t]] by simp
  show ?thesis
    using a s m by blast
qed

end
